theory Spec2Isabelle
  imports Complex_Main
begin

section \<open>Assignment statements of xapicaliper (lib/statements/assignment.js)\<close>

text \<open>
  The module exports five statement builders: \<open>create\<close>, \<open>view\<close>, \<open>submit\<close>,
  \<open>grade\<close> and \<open>feedback\<close>. Each one validates \<open>statement.metadata\<close> against an
  inline rule set, returns through the callback when validation fails, and otherwise
  hands an inline descriptor (verb, flat-format template \<open>XAPI\<close>, structured-format
  template \<open>CALIPER\<close>) to \<open>StatementUtil.processStatement\<close>.

  The builders are embedded from \<open>lib/statements/assignment.js\<close>. The helpers they call
  live in \<open>lib/util.js\<close>, whose source is missing; they are modelled from the
  specification and each such definition says so.
\<close>

subsection \<open>JavaScript values\<close>

text \<open>
  The controlled vocabulary (\<open>lib/verbs.js\<close>, \<open>lib/activitytypes.js\<close> and the caliperjs
  tables) is static lookup data; its entries are kept symbolic, one constructor for each
  table entry that the module reads. \<open>Caliper_PERSON\<close> is the kind tag of a rendered
  person.
\<close>

datatype vocab =
    VERBS_CREATED
  | VERBS_VIEWED
  | VERBS_SUBMITTED
  | VERBS_SCORED
  | VERBS_COMMENTED
  | ACTIVITY_TYPES_ASSESSMENT_id
  | CaliperEventType_ASSESSMENT
  | CaliperEventType_VIEWED
  | CaliperDigitalResourceType_ASSIGNABLE_DIGITAL_RESOURCE
  | CaliperEntityType_ATTEMPT
  | CaliperEntityType_RESULT
  | Caliper_PERSON

text \<open>
  A JavaScript number is an IEEE 754 binary64 value: a finite value, held by the exact
  rational it stands for (\<open>Fin 0\<close> is the positive zero), the negative zero, the two
  infinities, or \<open>NaN\<close>.
\<close>

datatype jsnum = Fin rat | NegZero | PosInf | NegInf | NaN

fun is_zero :: "jsnum \<Rightarrow> bool" where
  "is_zero (Fin x) = (x = 0)"
| "is_zero NegZero = True"
| "is_zero _ = False"

fun is_infinite :: "jsnum \<Rightarrow> bool" where
  "is_infinite PosInf = True"
| "is_infinite NegInf = True"
| "is_infinite _ = False"

fun negative :: "jsnum \<Rightarrow> bool" where
  "negative (Fin x) = (x < 0)"
| "negative NegZero = True"
| "negative NegInf = True"
| "negative _ = False"

fun exact :: "jsnum \<Rightarrow> rat" where
  "exact (Fin x) = x"
| "exact _ = 0"

text \<open>
  Rounding an exact value to binary64, to nearest with ties to even. \<open>ilog2 n\<close> is
  the position of the leading bit of \<open>n \<ge> 1\<close>; \<open>binary_exponent x\<close> is the
  exponent \<open>e\<close> of a positive \<open>x\<close>, the one with \<open>pow2 e \<le> x < pow2 (e + 1)\<close>.
  A magnitude is rounded to a multiple of its quantum \<open>pow2 (e - 52)\<close>, where \<open>e\<close>
  is not taken below the exponent of the subnormal range, \<open>-1022\<close>. A rounded
  magnitude of \<open>pow2 1024\<close> or more overflows to an infinity; one of zero underflows
  to a signed zero.
\<close>

function ilog2 :: "int \<Rightarrow> int" where
  "ilog2 n = (if n < 2 then 0 else 1 + ilog2 (n div 2))"
  by pat_completeness auto
termination
  by (relation "measure nat") auto

declare ilog2.simps [simp del]

definition pow2 :: "int \<Rightarrow> rat" where
  "pow2 e = (if 0 \<le> e then 2 ^ nat e else 1 / 2 ^ nat (- e))"

definition binary_exponent :: "rat \<Rightarrow> int" where
  "binary_exponent x =
     (if 1 \<le> x then ilog2 \<lfloor>x\<rfloor>
      else - (ilog2 (\<lceil>1 / x\<rceil> - 1) + 1))"

definition round_half_even :: "rat \<Rightarrow> int" where
  "round_half_even r =
     (if r - of_int \<lfloor>r\<rfloor> < 1 / 2 then \<lfloor>r\<rfloor>
      else if 1 / 2 < r - of_int \<lfloor>r\<rfloor> then \<lfloor>r\<rfloor> + 1
      else if even \<lfloor>r\<rfloor> then \<lfloor>r\<rfloor> else \<lfloor>r\<rfloor> + 1)"

definition round_magnitude :: "rat \<Rightarrow> rat" where
  "round_magnitude x =
     of_int (round_half_even (x / pow2 (max (binary_exponent x) (- 1022) - 52)))
       * pow2 (max (binary_exponent x) (- 1022) - 52)"

definition to_double :: "rat \<Rightarrow> jsnum" where
  "to_double x =
     (if x = 0 then Fin 0
      else if pow2 1024 \<le> round_magnitude \<bar>x\<bar> then (if 0 < x then PosInf else NegInf)
      else if round_magnitude \<bar>x\<bar> = 0 then (if 0 < x then Fin 0 else NegZero)
      else Fin (if 0 < x then round_magnitude \<bar>x\<bar> else - round_magnitude \<bar>x\<bar>))"

text \<open>
  Division of two numbers, as IEEE 754 defines it: \<open>NaN\<close> for a \<open>NaN\<close> operand, for
  an infinity by an infinity and for a zero by a zero; a signed infinity for an
  infinity by a finite value and for a non-zero value by a zero; a signed zero for a
  finite value by an infinity and for a zero by a non-zero value; otherwise the exact
  quotient rounded to binary64. The sign of a zero or infinite result is negative when
  exactly one operand is negative.
\<close>

definition num_div :: "jsnum \<Rightarrow> jsnum \<Rightarrow> jsnum" where
  "num_div a b =
     (if a = NaN \<or> b = NaN then NaN
      else if is_infinite a
        then (if is_infinite b then NaN
              else if negative a \<noteq> negative b then NegInf else PosInf)
      else if is_infinite b
        then (if negative a \<noteq> negative b then NegZero else Fin 0)
      else if is_zero b
        then (if is_zero a then NaN
              else if negative a \<noteq> negative b then NegInf else PosInf)
      else if is_zero a
        then (if negative a \<noteq> negative b then NegZero else Fin 0)
      else to_double (exact a / exact b))"

text \<open>
  A JavaScript value. An object is an association list in the order of its literal.
  \<open>JDate\<close> is a \<open>Date\<close> object, as milliseconds since the epoch.
\<close>

datatype jsval =
    Undefined
  | Null
  | JBool bool
  | JNum jsnum
  | JStr string
  | JDate int
  | JArr "jsval list"
  | JObj "(string \<times> jsval) list"
  | JTerm vocab

type_synonym jsobject = "(string \<times> jsval) list"

text \<open>Reading a property: a key that the object does not hold reads as \<open>undefined\<close>.\<close>

definition obj_get :: "jsobject \<Rightarrow> string \<Rightarrow> jsval" where
  "obj_get kvs k = (case map_of kvs k of Some v \<Rightarrow> v | None \<Rightarrow> Undefined)"

fun js_get :: "jsval \<Rightarrow> string \<Rightarrow> jsval" where
  "js_get (JObj kvs) k = obj_get kvs k"
| "js_get _ k = Undefined"

text \<open>
  A field is present in an object when reading it gives something other than
  \<open>undefined\<close>; a key bound to \<open>undefined\<close> is indistinguishable from a missing key
  for a property read and is dropped when the object is serialised. A key bound to
  \<open>null\<close> is present: it is a null placeholder.
\<close>

definition has_field :: "jsval \<Rightarrow> string \<Rightarrow> bool" where
  "has_field obj k = (js_get obj k \<noteq> Undefined)"

text \<open>
  Truthiness, as the condition of an \<open>if\<close> statement reads a value: of the numbers,
  the two zeros and \<open>NaN\<close> are falsy.
\<close>

fun truthy :: "jsval \<Rightarrow> bool" where
  "truthy Undefined = False"
| "truthy Null = False"
| "truthy (JBool b) = b"
| "truthy (JNum n) = (\<not> is_zero n \<and> n \<noteq> NaN)"
| "truthy (JStr s) = (s \<noteq> [])"
| "truthy _ = True"

text \<open>
  The operator \<open>/\<close> divides two numbers as binary64 values. The module divides in
  one place, \<open>grade / grade_max\<close>, reached only with two numbers (lemma
  \<open>grade_division_operands\<close> below); the coercions that JavaScript applies to other
  operands are not modelled and the second equation is never evaluated by the builders.
\<close>

fun js_div :: "jsval \<Rightarrow> jsval \<Rightarrow> jsval" where
  "js_div (JNum a) (JNum b) = JNum (num_div a b)"
| "js_div _ _ = Undefined"

subsection \<open>Configuration, event and collaborators\<close>

text \<open>\<open>config\<close>: the module reads \<open>config.platform\<close> only.\<close>

record config =
  platform :: jsval

text \<open>
  \<open>statement\<close>: the event supplied by the caller. \<open>metadata\<close> is an object; the
  module reads its fields without checking that it is one.
\<close>

record statement =
  actor :: jsval
  timestamp :: jsval
  metadata :: jsobject

text \<open>
  What the specification leaves to the platform is a parameter of the model: the
  syntax check of an absolute URI, the test that a value parses as a date, the stable
  hash of the identifier derivation, the date formatter \<open>StatementUtil.generateDate\<close>
  and the transport collaborator \<open>send\<close>, which answers with a failure reason
  (\<open>Inl\<close>) or a success value (\<open>Inr\<close>).
\<close>

record env =
  uri_syntax_ok :: "string \<Rightarrow> bool"
  date_parses :: "jsval \<Rightarrow> bool"
  uuid_hash :: "jsval \<Rightarrow> jsval \<Rightarrow> jsval list \<Rightarrow> string"
  generateDate :: "jsval \<Rightarrow> jsval"
  transport_send :: "jsval \<Rightarrow> jsval \<Rightarrow> jsval + jsval"

subsection \<open>Validator\<close>

datatype ftype = TString | TNumber | TDate | TUri | TArray

datatype reason = Missing | WrongType ftype

datatype error =
    ValidationError string reason
  | TransportError jsval

text \<open>
  A rule set: the fields in the order of the object literal, each with its
  \<open>type\<close> and its \<open>required\<close> flag.
\<close>

type_synonym rules = "(string \<times> ftype \<times> bool) list"

text \<open>
  Modelled from the spec: the type conformance test of \<open>StatementUtil.validate\<close>
  (lib/util.js is missing). \<open>string\<close> is a textual value, \<open>number\<close> is numeric (a
  number other than \<open>NaN\<close>, which is not a number),
  \<open>date\<close> is parseable as a calendar date/time, \<open>uri\<close> is a syntactically valid
  absolute URI, \<open>array\<close> is an ordered sequence.
\<close>

fun conforms :: "env \<Rightarrow> ftype \<Rightarrow> jsval \<Rightarrow> bool" where
  "conforms E TString v = (case v of JStr s \<Rightarrow> True | _ \<Rightarrow> False)"
| "conforms E TNumber v = (case v of JNum n \<Rightarrow> n \<noteq> NaN | _ \<Rightarrow> False)"
| "conforms E TDate v = date_parses E v"
| "conforms E TUri v = (case v of JStr s \<Rightarrow> uri_syntax_ok E s | _ \<Rightarrow> False)"
| "conforms E TArray v = (case v of JArr xs \<Rightarrow> True | _ \<Rightarrow> False)"

text \<open>
  Modelled from the spec: the check that \<open>StatementUtil.validate\<close> makes for one
  declared field (lib/util.js is missing). A required field that is absent, null or the
  empty string fails as missing; a field that is present is checked against its
  declared type and fails as wrong-type on a mismatch.
\<close>

definition is_missing :: "jsval \<Rightarrow> bool" where
  "is_missing v = (v = Undefined \<or> v = Null \<or> v = JStr [])"

definition check_field :: "env \<Rightarrow> jsobject \<Rightarrow> string \<times> ftype \<times> bool \<Rightarrow> error option" where
  "check_field E m r =
     (case r of (name, ty, req) \<Rightarrow>
        if req \<and> is_missing (obj_get m name)
        then Some (ValidationError name Missing)
        else if obj_get m name \<noteq> Undefined \<and> \<not> conforms E ty (obj_get m name)
        then Some (ValidationError name (WrongType ty))
        else None)"

text \<open>
  Modelled from the spec: the loop of \<open>StatementUtil.validate\<close> over the rule set
  (lib/util.js is missing), in the declared order, returning at the first failure and
  \<open>null\<close> (\<open>None\<close>) when every declared field passes. Fields of the metadata that
  the rule set does not list are never read.
\<close>

fun validate_fields :: "env \<Rightarrow> jsobject \<Rightarrow> rules \<Rightarrow> error option" where
  "validate_fields E m [] = None"
| "validate_fields E m (r # rs) =
     (case check_field E m r of
        Some e \<Rightarrow> Some e
      | None \<Rightarrow> validate_fields E m rs)"

text \<open>
  Modelled from the spec: \<open>StatementUtil.validate(config, statement, rules)\<close>
  (lib/util.js is missing). The specification gives the contract on the rule set and the
  metadata alone.
\<close>

definition validate :: "env \<Rightarrow> config \<Rightarrow> statement \<Rightarrow> rules \<Rightarrow> error option" where
  "validate E config statement rs = validate_fields E (metadata statement) rs"

subsection \<open>Identifier deriver and renderers\<close>

text \<open>
  Modelled from the spec: \<open>StatementUtil.XAPI.generateUuid(platform, verb, parts)\<close>
  (lib/util.js is missing), the identifier deriver: a deterministic function of the
  platform, the verb and the ordered parts. The hash itself is the parameter
  \<open>uuid_hash\<close>.
\<close>

definition generateUuid :: "env \<Rightarrow> jsval \<Rightarrow> jsval \<Rightarrow> jsval list \<Rightarrow> jsval" where
  "generateUuid E namespace verb parts = JStr (uuid_hash E namespace verb parts)"

text \<open>
  Modelled from the spec: \<open>StatementUtil.XAPI.getUserId(actor)\<close> (lib/util.js is
  missing), the accessor of the stable user identifier of an actor: its \<open>id\<close>.
\<close>

definition getUserId :: "jsval \<Rightarrow> jsval" where
  "getUserId a = js_get a ''id''"

text \<open>
  Modelled from the spec: the pruning of the entity and person renderers (lib/util.js
  is missing). An attribute whose value is absent is omitted from the rendered object,
  which holds no null placeholder: \<open>undefined\<close> and \<open>null\<close> are both dropped.
\<close>

definition absent :: "jsval \<Rightarrow> bool" where
  "absent v = (v = Undefined \<or> v = Null)"

definition prune :: "jsobject \<Rightarrow> jsobject" where
  "prune kvs = filter (\<lambda>kv. \<not> absent (snd kv)) kvs"

text \<open>Merging an object into another: a key of the second object replaces the first's.\<close>

definition merge_into :: "jsobject \<Rightarrow> jsobject \<Rightarrow> jsobject" where
  "merge_into base ext = filter (\<lambda>kv. fst kv \<notin> fst ` set ext) base @ ext"

text \<open>
  Modelled from the spec: \<open>StatementUtil.Caliper.generateEntity(attributes, extensions)\<close>
  (lib/util.js is missing). The kind tag is the attribute \<open>type\<close>; the rendered object
  holds the attributes that are not absent, and the extensions, when given, are merged
  in with their absent values pruned as well.
\<close>

definition generateEntity :: "jsobject \<Rightarrow> jsobject option \<Rightarrow> jsval" where
  "generateEntity props exts =
     JObj (merge_into (prune props) (case exts of None \<Rightarrow> [] | Some e \<Rightarrow> prune e))"

text \<open>
  Modelled from the spec: \<open>StatementUtil.Caliper.generatePerson(actor)\<close> (lib/util.js
  is missing): the person shape of the structured format, holding the user identifier
  that \<open>getUserId\<close> extracts.
\<close>

definition generatePerson :: "jsval \<Rightarrow> jsval" where
  "generatePerson a =
     generateEntity [(''type'', JTerm Caliper_PERSON), (''id'', getUserId a)] None"

subsection \<open>Statement processor\<close>

text \<open>
  What a call does, in order: a call of the identifier deriver with its arguments, a
  call of the entity or of the person renderer, the dispatch of the two payloads to the
  transport collaborator, an invocation of the caller's callback.
\<close>

datatype outcome = Failure error | Success jsval

datatype effect =
    Derive jsval jsval "jsval list"
  | RenderEntity
  | RenderPerson
  | Send jsval jsval
  | Callback outcome

text \<open>
  Modelled from the spec: the pruning that every renderer honours identically, for the
  flat format (lib/util.js is missing). The flat-format templates are nested object
  literals, so an absent attribute is omitted at every level of the object; a value
  that is not an object is left as it is.
\<close>

primrec prune_deep :: "jsval \<Rightarrow> jsval" where
  "prune_deep Undefined = Undefined"
| "prune_deep Null = Null"
| "prune_deep (JBool b) = JBool b"
| "prune_deep (JNum n) = JNum n"
| "prune_deep (JStr s) = JStr s"
| "prune_deep (JDate t) = JDate t"
| "prune_deep (JArr xs) = JArr xs"
| "prune_deep (JObj kvs) = JObj (prune (map (map_prod id prune_deep) kvs))"
| "prune_deep (JTerm t) = JTerm t"

definition uuid_parts :: "jsval \<Rightarrow> jsval list" where
  "uuid_parts v = (case v of JArr ps \<Rightarrow> ps | _ \<Rightarrow> [])"

text \<open>
  Modelled from the spec: the flat-format payload that \<open>processStatement\<close> builds
  (lib/util.js is missing): the envelope (derived identifier, actor, verb, timestamp)
  plus the object and result fields of the descriptor's flat template. Absent optional
  values propagate through the template as absence and are pruned in the rendering,
  in this format as in the structured one: the rendered statement holds no field for
  an absent value, at any level.
\<close>

definition flat_payload :: "env \<Rightarrow> config \<Rightarrow> statement \<Rightarrow> jsval \<Rightarrow> jsval" where
  "flat_payload E config statement opts =
     prune_deep (JObj [
       (''id'', generateUuid E (platform config) (js_get opts ''verb'')
                  (uuid_parts (js_get (js_get opts ''XAPI'') ''uuid''))),
       (''actor'', actor statement),
       (''verb'', js_get opts ''verb''),
       (''timestamp'', timestamp statement),
       (''object'', js_get (js_get opts ''XAPI'') ''object''),
       (''result'', js_get (js_get opts ''XAPI'') ''result'')])"

text \<open>
  Modelled from the spec: the structured-format payload that \<open>processStatement\<close>
  builds (lib/util.js is missing): the event-type tag, the common envelope fields
  (actor as a rendered person, verb, timestamp) and the object, generated and target
  entities of the descriptor's structured template. A field that the template leaves
  absent is omitted.
\<close>

definition structured_payload :: "env \<Rightarrow> config \<Rightarrow> statement \<Rightarrow> jsval \<Rightarrow> jsval" where
  "structured_payload E config statement opts =
     JObj (prune [
       (''type'', js_get (js_get opts ''CALIPER'') ''type''),
       (''actor'', generatePerson (actor statement)),
       (''verb'', js_get opts ''verb''),
       (''timestamp'', timestamp statement),
       (''object'', js_get (js_get opts ''CALIPER'') ''object''),
       (''generated'', js_get (js_get opts ''CALIPER'') ''generated''),
       (''target'', js_get (js_get opts ''CALIPER'') ''target'')])"

text \<open>
  Modelled from the spec: \<open>StatementUtil.processStatement(config, statement, opts,
  callback)\<close> (lib/util.js is missing). It derives the primary identifier from
  \<open>config.platform\<close>, the descriptor's verb and the descriptor's part list, builds
  the two payloads, hands them to the transport collaborator once and relays the
  transport's outcome to the callback: \<open>callback(error)\<close> on a failure,
  \<open>callback(null, result)\<close> on a success.
\<close>

definition processStatement :: "env \<Rightarrow> config \<Rightarrow> statement \<Rightarrow> jsval \<Rightarrow> effect list" where
  "processStatement E config statement opts =
     (let flat = flat_payload E config statement opts;
          structured = structured_payload E config statement opts
      in [Derive (platform config) (js_get opts ''verb'')
            (uuid_parts (js_get (js_get opts ''XAPI'') ''uuid'')),
          RenderPerson,
          Send flat structured,
          Callback (case transport_send E flat structured of
                      Inl err \<Rightarrow> Failure (TransportError err)
                    | Inr result \<Rightarrow> Success result)])"

subsection \<open>The builders of lib/statements/assignment.js\<close>

text \<open>
  Every builder is called with a callback; the trace of a call lists what the call
  does. \<open>md statement k\<close> is the read \<open>statement.metadata.k\<close>.
\<close>

abbreviation md :: "statement \<Rightarrow> string \<Rightarrow> jsval" where
  "md statement k \<equiv> obj_get (metadata statement) k"

abbreviation submissions_types_key :: string where
  "submissions_types_key \<equiv>
     ''https://canvas.instructure.com/xapi/assignments/submissions_types''"

subsubsection \<open>create\<close>

definition create_rules :: rules where
  "create_rules = [
     (''id'', TUri, True),
     (''title'', TString, True),
     (''description'', TString, False),
     (''due_at'', TDate, False),
     (''max_points'', TNumber, False),
     (''submission_types'', TArray, False)]"

text \<open>The object literal that \<open>create\<close> passes to \<open>processStatement\<close>.\<close>

definition create_descriptor :: "statement \<Rightarrow> jsval" where
  "create_descriptor statement =
     JObj [
       (''verb'', JTerm VERBS_CREATED),
       (''XAPI'', JObj [
          (''uuid'', JArr [md statement ''id'']),
          (''object'', JObj [
             (''id'', md statement ''id''),
             (''type'', JTerm ACTIVITY_TYPES_ASSESSMENT_id),
             (''name'', md statement ''title''),
             (''description'', md statement ''description''),
             (submissions_types_key, md statement ''submission_types'')])]),
       (''CALIPER'', JObj [
          (''type'', JTerm CaliperEventType_ASSESSMENT),
          (''object'', generateEntity [
             (''type'', JTerm CaliperDigitalResourceType_ASSIGNABLE_DIGITAL_RESOURCE),
             (''id'', md statement ''id''),
             (''name'', md statement ''title''),
             (''description'', md statement ''description''),
             (''dateToSubmit'', md statement ''due_at''),
             (''maxScore'', md statement ''max_points'')]
            (Some [(submissions_types_key, md statement ''submission_types'')]))])]"

text \<open>
  \<open>create\<close>: on a validation error the callback is called with it and the function
  returns; otherwise the arguments of \<open>processStatement\<close> are evaluated (one entity is
  rendered) and \<open>processStatement\<close> runs.
\<close>

definition create :: "env \<Rightarrow> config \<Rightarrow> statement \<Rightarrow> effect list" where
  "create E config statement =
     (case validate E config statement create_rules of
        Some validationError \<Rightarrow> [Callback (Failure validationError)]
      | None \<Rightarrow>
          [RenderEntity]
          @ processStatement E config statement (create_descriptor statement))"

subsubsection \<open>view\<close>

definition view_rules :: rules where
  "view_rules = [(''assignment'', TUri, True)]"

definition view_descriptor :: "env \<Rightarrow> config \<Rightarrow> statement \<Rightarrow> jsval" where
  "view_descriptor E config statement =
     JObj [
       (''verb'', JTerm VERBS_VIEWED),
       (''XAPI'', JObj [
          (''uuid'', JArr [timestamp statement, md statement ''assignment'',
                           getUserId (actor statement)]),
          (''object'', generateUuid E (platform config) (JTerm VERBS_CREATED)
                         [md statement ''assignment''])]),
       (''CALIPER'', JObj [
          (''type'', JTerm CaliperEventType_VIEWED),
          (''object'', generateEntity [
             (''type'', JTerm CaliperDigitalResourceType_ASSIGNABLE_DIGITAL_RESOURCE),
             (''id'', md statement ''assignment'')] None)])]"

definition view :: "env \<Rightarrow> config \<Rightarrow> statement \<Rightarrow> effect list" where
  "view E config statement =
     (case validate E config statement view_rules of
        Some validationError \<Rightarrow> [Callback (Failure validationError)]
      | None \<Rightarrow>
          [Derive (platform config) (JTerm VERBS_CREATED) [md statement ''assignment''],
           RenderEntity]
          @ processStatement E config statement (view_descriptor E config statement))"

subsubsection \<open>submit\<close>

definition submit_rules :: rules where
  "submit_rules = [
     (''id'', TUri, True),
     (''assignment'', TUri, True),
     (''submission'', TString, False)]"

definition submit_descriptor :: "env \<Rightarrow> config \<Rightarrow> statement \<Rightarrow> jsval" where
  "submit_descriptor E config statement =
     JObj [
       (''verb'', JTerm VERBS_SUBMITTED),
       (''XAPI'', JObj [
          (''uuid'', JArr [md statement ''id'']),
          (''object'', generateUuid E (platform config) (JTerm VERBS_CREATED)
                         [md statement ''assignment'']),
          (''result'', JObj [
             (''completion'', JBool True),
             (''response'', md statement ''submission'')])]),
       (''CALIPER'', JObj [
          (''type'', JTerm CaliperEventType_ASSESSMENT),
          (''object'', generateEntity [
             (''type'', JTerm CaliperDigitalResourceType_ASSIGNABLE_DIGITAL_RESOURCE),
             (''id'', md statement ''assignment'')] None),
          (''generated'', generateEntity [
             (''type'', JTerm CaliperEntityType_ATTEMPT),
             (''id'', md statement ''id''),
             (''description'', md statement ''submission''),
             (''assignable'', md statement ''assignment''),
             (''endedAtTime'', generateDate E (timestamp statement)),
             (''actor'', generatePerson (actor statement))] None)])]"

definition submit :: "env \<Rightarrow> config \<Rightarrow> statement \<Rightarrow> effect list" where
  "submit E config statement =
     (case validate E config statement submit_rules of
        Some validationError \<Rightarrow> [Callback (Failure validationError)]
      | None \<Rightarrow>
          [Derive (platform config) (JTerm VERBS_CREATED) [md statement ''assignment''],
           RenderEntity, RenderPerson, RenderEntity]
          @ processStatement E config statement (submit_descriptor E config statement))"

subsubsection \<open>grade\<close>

definition grade_rules :: rules where
  "grade_rules = [
     (''id'', TUri, True),
     (''assignment'', TUri, True),
     (''grade'', TNumber, True),
     (''grade_min'', TNumber, False),
     (''grade_max'', TNumber, False)]"

text \<open>
  \<open>var scaled_score = null; if (statement.metadata.grade_max) { scaled_score =
  statement.metadata.grade / statement.metadata.grade_max; }\<close>
\<close>

definition scaled_score :: "statement \<Rightarrow> jsval" where
  "scaled_score statement =
     (if truthy (md statement ''grade_max'')
      then js_div (md statement ''grade'') (md statement ''grade_max'')
      else Null)"

definition grade_descriptor :: "env \<Rightarrow> config \<Rightarrow> statement \<Rightarrow> jsval" where
  "grade_descriptor E config statement =
     JObj [
       (''verb'', JTerm VERBS_SCORED),
       (''XAPI'', JObj [
          (''uuid'', JArr [md statement ''id'']),
          (''object'', generateUuid E (platform config) (JTerm VERBS_SUBMITTED)
                         [md statement ''id'']),
          (''result'', JObj [
             (''score'', JObj [
                (''raw'', md statement ''grade''),
                (''min'', md statement ''grade_min''),
                (''max'', md statement ''grade_max''),
                (''scaled'', scaled_score statement)])])]),
       (''CALIPER'', JObj [
          (''type'', JStr []),
          (''object'', generateEntity [
             (''type'', JTerm CaliperEntityType_ATTEMPT),
             (''id'', md statement ''id'')] None),
          (''generated'', generateEntity [
             (''type'', JTerm CaliperEntityType_RESULT),
             (''assignable'', md statement ''assignment''),
             (''totalScore'', md statement ''grade''),
             (''normalScore'', scaled_score statement),
             (''scoredBy'', generatePerson (actor statement))] None)])]"

definition grade :: "env \<Rightarrow> config \<Rightarrow> statement \<Rightarrow> effect list" where
  "grade E config statement =
     (case validate E config statement grade_rules of
        Some validationError \<Rightarrow> [Callback (Failure validationError)]
      | None \<Rightarrow>
          [Derive (platform config) (JTerm VERBS_SUBMITTED) [md statement ''id''],
           RenderEntity, RenderPerson, RenderEntity]
          @ processStatement E config statement (grade_descriptor E config statement))"

subsubsection \<open>feedback\<close>

definition feedback_rules :: rules where
  "feedback_rules = [
     (''id'', TUri, True),
     (''submission'', TUri, True),
     (''feedback'', TString, True)]"

definition feedback_descriptor :: "env \<Rightarrow> config \<Rightarrow> statement \<Rightarrow> jsval" where
  "feedback_descriptor E config statement =
     JObj [
       (''verb'', JTerm VERBS_COMMENTED),
       (''XAPI'', JObj [
          (''uuid'', JArr [md statement ''id'']),
          (''object'', generateUuid E (platform config) (JTerm VERBS_SUBMITTED)
                         [md statement ''submission'']),
          (''result'', JObj [
             (''response'', md statement ''feedback'')])]),
       (''CALIPER'', JObj [
          (''object'', generateEntity [
             (''id'', md statement ''id''),
             (''description'', md statement ''feedback'')] None),
          (''target'', generateEntity [
             (''type'', JTerm CaliperEntityType_ATTEMPT),
             (''id'', md statement ''id'')] None)])]"

definition feedback :: "env \<Rightarrow> config \<Rightarrow> statement \<Rightarrow> effect list" where
  "feedback E config statement =
     (case validate E config statement feedback_rules of
        Some validationError \<Rightarrow> [Callback (Failure validationError)]
      | None \<Rightarrow>
          [Derive (platform config) (JTerm VERBS_SUBMITTED) [md statement ''submission''],
           RenderEntity, RenderEntity]
          @ processStatement E config statement (feedback_descriptor E config statement))"

subsubsection \<open>The exported operations\<close>

text \<open>The five functions of \<open>module.exports\<close>, each with the rule set it validates.\<close>

datatype operation = Create | View | Submit | Grade | Feedback

fun rules_of :: "operation \<Rightarrow> rules" where
  "rules_of Create = create_rules"
| "rules_of View = view_rules"
| "rules_of Submit = submit_rules"
| "rules_of Grade = grade_rules"
| "rules_of Feedback = feedback_rules"

fun run :: "operation \<Rightarrow> env \<Rightarrow> config \<Rightarrow> statement \<Rightarrow> effect list" where
  "run Create = create"
| "run View = view"
| "run Submit = submit"
| "run Grade = grade"
| "run Feedback = feedback"

subsection \<open>Reading a trace\<close>

text \<open>The payload pairs handed to the transport collaborator, in order.\<close>

fun dispatched :: "effect list \<Rightarrow> (jsval \<times> jsval) list" where
  "dispatched [] = []"
| "dispatched (Send flat structured # es) = (flat, structured) # dispatched es"
| "dispatched (e # es) = dispatched es"

text \<open>The outcomes that the callback was invoked with, in order.\<close>

fun callbacks :: "effect list \<Rightarrow> outcome list" where
  "callbacks [] = []"
| "callbacks (Callback out # es) = out # callbacks es"
| "callbacks (e # es) = callbacks es"

text \<open>The argument triples of the calls of the identifier deriver, in order.\<close>

fun derivations :: "effect list \<Rightarrow> (jsval \<times> jsval \<times> jsval list) list" where
  "derivations [] = []"
| "derivations (Derive p v parts # es) = (p, v, parts) # derivations es"
| "derivations (e # es) = derivations es"

text \<open>The number of calls of the entity and person renderers.\<close>

fun renderings :: "effect list \<Rightarrow> nat" where
  "renderings [] = 0"
| "renderings (RenderEntity # es) = Suc (renderings es)"
| "renderings (RenderPerson # es) = Suc (renderings es)"
| "renderings (e # es) = renderings es"

text \<open>The keys of a rendered object.\<close>

fun keys_of :: "jsval \<Rightarrow> string set" where
  "keys_of (JObj kvs) = fst ` set kvs"
| "keys_of _ = {}"

text \<open>
  The flat-format and the structured-format payload of the first dispatch of a trace
  (\<open>undefined\<close> when nothing was dispatched).
\<close>

definition flat_of :: "effect list \<Rightarrow> jsval" where
  "flat_of tr = (case dispatched tr of [] \<Rightarrow> Undefined | p # ps \<Rightarrow> fst p)"

definition structured_of :: "effect list \<Rightarrow> jsval" where
  "structured_of tr = (case dispatched tr of [] \<Rightarrow> Undefined | p # ps \<Rightarrow> snd p)"

subsection \<open>The validator's contract in the words of the specification\<close>

text \<open>
  A declared field is in order when, if it is required, it is present (not absent, null
  or the empty string) with its declared type, and, if the metadata holds it at all, it
  matches its declared type.
\<close>

definition field_ok :: "env \<Rightarrow> jsobject \<Rightarrow> string \<times> ftype \<times> bool \<Rightarrow> bool" where
  "field_ok E m r =
     (case r of (name, ty, req) \<Rightarrow>
        (req \<longrightarrow> \<not> is_missing (obj_get m name) \<and> conforms E ty (obj_get m name)) \<and>
        (obj_get m name \<noteq> Undefined \<longrightarrow> conforms E ty (obj_get m name)))"

subsection \<open>Concrete collaborators and events\<close>

text \<open>
  A platform on which a URI starts with \<open>https://\<close>, a date is a \<open>Date\<close> object, the
  hash joins the textual parts, dates are left as they are and the transport succeeds,
  answering with both payloads; and the same platform with a transport that fails.
\<close>

fun text_of :: "jsval \<Rightarrow> string" where
  "text_of (JStr s) = s"
| "text_of _ = ''-''"

definition acme_env :: env where
  "acme_env = \<lparr>
     uri_syntax_ok = (\<lambda>s. take 8 s = ''https://''),
     date_parses = (\<lambda>v. case v of JDate t \<Rightarrow> True | _ \<Rightarrow> False),
     uuid_hash = (\<lambda>p v parts. concat (map text_of (p # parts))),
     generateDate = (\<lambda>v. v),
     transport_send = (\<lambda>flat structured.
        Inr (JObj [(''flat'', flat), (''structured'', structured)])) \<rparr>"

definition offline_env :: env where
  "offline_env = acme_env \<lparr> transport_send := (\<lambda>flat structured. Inl (JStr ''offline'')) \<rparr>"

definition acme_config :: config where
  "acme_config = \<lparr> platform = JStr ''acme'' \<rparr>"

definition essay_created :: statement where
  "essay_created = \<lparr>
     actor = JObj [(''id'', JStr ''u1'')],
     timestamp = JDate 0,
     metadata = [(''id'', JStr ''https://x/a1''), (''title'', JStr ''Essay'')] \<rparr>"

definition essay_created_again :: statement where
  "essay_created_again = \<lparr>
     actor = JObj [(''id'', JStr ''u2'')],
     timestamp = JDate 86400000,
     metadata = [(''id'', JStr ''https://x/a1''), (''title'', JStr ''Essay, second edition''),
                 (''max_points'', JNum (Fin 50))] \<rparr>"

definition essay_viewed :: statement where
  "essay_viewed = \<lparr>
     actor = JObj [(''id'', JStr ''u1'')],
     timestamp = JDate 0,
     metadata = [(''assignment'', JStr ''https://x/a1'')] \<rparr>"

definition essay_viewed_again :: statement where
  "essay_viewed_again = \<lparr>
     actor = JObj [(''id'', JStr ''u1'')],
     timestamp = JDate 0,
     metadata = [(''assignment'', JStr ''https://x/a1''), (''referrer'', JStr ''dashboard'')] \<rparr>"

definition essay_submitted :: statement where
  "essay_submitted = \<lparr>
     actor = JObj [(''id'', JStr ''u1'')],
     timestamp = JDate 0,
     metadata = [(''id'', JStr ''https://x/s1''), (''assignment'', JStr ''https://x/a1'')] \<rparr>"

definition submitted_without_assignment :: statement where
  "submitted_without_assignment = \<lparr>
     actor = JObj [(''id'', JStr ''u1'')],
     timestamp = JDate 0,
     metadata = [(''id'', JStr ''https://x/s1'')] \<rparr>"

definition submitted_without_anything :: statement where
  "submitted_without_anything = \<lparr>
     actor = JObj [(''id'', JStr ''u1'')],
     timestamp = JDate 0,
     metadata = [] \<rparr>"

definition graded_45_of_50 :: statement where
  "graded_45_of_50 = \<lparr>
     actor = JObj [(''id'', JStr ''t1'')],
     timestamp = JDate 0,
     metadata = [(''id'', JStr ''https://x/s1''), (''assignment'', JStr ''https://x/a1''),
                 (''grade'', JNum (Fin 45)), (''grade_max'', JNum (Fin 50))] \<rparr>"

definition graded_without_max :: statement where
  "graded_without_max = \<lparr>
     actor = JObj [(''id'', JStr ''t1'')],
     timestamp = JDate 0,
     metadata = [(''id'', JStr ''https://x/s1''), (''assignment'', JStr ''https://x/a1''),
                 (''grade'', JNum (Fin 45))] \<rparr>"

definition feedback_given :: statement where
  "feedback_given = \<lparr>
     actor = JObj [(''id'', JStr ''t1'')],
     timestamp = JDate 0,
     metadata = [(''id'', JStr ''https://x/f1''), (''submission'', JStr ''https://x/s1''),
                 (''feedback'', JStr ''Well argued'')] \<rparr>"

section \<open>Properties\<close>

subsection \<open>The validator\<close>

lemma check_field_missing:
  "req \<and> is_missing (obj_get m name) \<Longrightarrow>
     check_field E m (name, ty, req) = Some (ValidationError name Missing)"
  by (simp add: check_field_def)

lemma check_field_wrong_type:
  "\<not> (req \<and> is_missing (obj_get m name)) \<Longrightarrow> obj_get m name \<noteq> Undefined \<Longrightarrow>
   \<not> conforms E ty (obj_get m name) \<Longrightarrow>
     check_field E m (name, ty, req) = Some (ValidationError name (WrongType ty))"
  by (simp add: check_field_def)

lemma check_field_pass:
  "\<not> (req \<and> is_missing (obj_get m name)) \<Longrightarrow>
   obj_get m name = Undefined \<or> conforms E ty (obj_get m name) \<Longrightarrow>
     check_field E m (name, ty, req) = None"
  by (simp add: check_field_def)

lemma check_field_error:
  assumes "check_field E m (name, ty, req) = Some e"
  shows "e = (if req \<and> is_missing (obj_get m name) then ValidationError name Missing
          else ValidationError name (WrongType ty))"
proof (cases "req \<and> is_missing (obj_get m name)")
  case True
  with assms have "e = ValidationError name Missing" by (simp add: check_field_missing)
  then show ?thesis by (simp only: if_P[OF True])
next
  case False
  show ?thesis
  proof (cases "obj_get m name = Undefined \<or> conforms E ty (obj_get m name)")
    case True
    with False have "check_field E m (name, ty, req) = None" by (rule check_field_pass)
    with assms show ?thesis by simp
  next
    case nc: False
    with False have "check_field E m (name, ty, req) = Some (ValidationError name (WrongType ty))"
      by (simp add: check_field_wrong_type)
    with assms have "e = ValidationError name (WrongType ty)" by simp
    then show ?thesis by (simp only: if_not_P[OF False])
  qed
qed

lemma check_field_ok: "check_field E m r = None \<longleftrightarrow> field_ok E m r"
proof (cases r)
  case (fields name ty req)
  show ?thesis
  proof (cases "req \<and> is_missing (obj_get m name)")
    case True
    then show ?thesis
      by (simp add: fields check_field_missing field_ok_def)
  next
    case False
    show ?thesis
    proof (cases "obj_get m name = Undefined \<or> conforms E ty (obj_get m name)")
      case True
      with False have "check_field E m (name, ty, req) = None"
        by (rule check_field_pass)
      moreover have "field_ok E m (name, ty, req)"
        using False True by (auto simp: field_ok_def is_missing_def)
      ultimately show ?thesis by (simp add: fields)
    next
      case nc: False
      with False have "check_field E m (name, ty, req) = Some (ValidationError name (WrongType ty))"
        by (simp add: check_field_wrong_type)
      moreover have "\<not> field_ok E m (name, ty, req)"
        using nc by (simp add: field_ok_def)
      ultimately show ?thesis by (simp add: fields)
    qed
  qed
qed

lemma validate_fields_None: "validate_fields E m rs = None \<longleftrightarrow> (\<forall>r \<in> set rs. field_ok E m r)"
proof (induction rs)
  case Nil
  show ?case by simp
next
  case (Cons a rs)
  show ?case
  proof (cases "check_field E m a")
    case None
    then have "field_ok E m a" by (simp add: check_field_ok)
    with None Cons.IH show ?thesis by simp
  next
    case (Some e)
    then have "\<not> field_ok E m a" using check_field_ok[of E m a] by simp
    with Some show ?thesis by simp
  qed
qed

lemma check_field_cong:
  "obj_get m' (fst r) = obj_get m (fst r) \<Longrightarrow> check_field E m' r = check_field E m r"
  by (cases r) (simp add: check_field_def)

lemma validate_fields_cong:
  "\<forall>r \<in> set rs. obj_get m' (fst r) = obj_get m (fst r) \<Longrightarrow> validate_fields E m' rs = validate_fields E m rs"
proof (induction rs)
  case Nil
  show ?case by simp
next
  case (Cons a rs)
  from Cons.prems have "obj_get m' (fst a) = obj_get m (fst a)"
    by simp
  then have "check_field E m' a = check_field E m a"
    by (rule check_field_cong)
  moreover from Cons have "validate_fields E m' rs = validate_fields E m rs"
    by simp
  ultimately show ?case by (simp split: option.split)
qed


lemma validate_fields_first:
  "validate_fields E m rs = Some e \<Longrightarrow>
     \<exists>pre r post. rs = pre @ r # post \<and> (\<forall>q \<in> set pre. field_ok E m q) \<and> \<not> field_ok E m r
        \<and> check_field E m r = Some e"
proof (induction rs)
  case Nil
  then show ?case by simp
next
  case (Cons a rs)
  show ?case
  proof (cases "check_field E m a")
    case None
    with Cons.prems have "validate_fields E m rs = Some e" by simp
    from Cons.IH[OF this] obtain pre r post where
      h: "rs = pre @ r # post" "\<forall>q \<in> set pre. field_ok E m q" "\<not> field_ok E m r" "check_field E m r = Some e"
      by blast
    from None have "field_ok E m a" by (simp add: check_field_ok)
    with h have "a # rs = (a # pre) @ r # post \<and> (\<forall>q \<in> set (a # pre). field_ok E m q) \<and> \<not> field_ok E m r \<and> check_field E m r = Some e"
      by simp
    then show ?thesis by blast
  next
    case (Some e')
    with Cons.prems have "e' = e" by simp
    with Some have "check_field E m a = Some e" by simp
    moreover from this have "\<not> field_ok E m a" using check_field_ok[of E m a] by simp
    ultimately have "a # rs = [] @ a # rs \<and> (\<forall>q \<in> set []. field_ok E m q) \<and> \<not> field_ok E m a \<and> check_field E m a = Some e"
      by simp
    then show ?thesis by blast
  qed
qed

text \<open>
  C3. For every rule set and every metadata, \<open>validate\<close> returns no error exactly when
  every declared field is in order: a required field is present (not absent, null or
  the empty string) with its declared type, and a field that the metadata holds
  matches its declared type. Fields that the rule set does not list are ignored: two
  metadata objects that agree on the declared fields get the same answer. On failure
  one error is returned, that of the first field, in the declared order, that is not in
  order; it names the field and says whether it is missing or of the wrong type.
\<close>

theorem validate_contract:
  "(validate E config statement rs = None \<longleftrightarrow>
      (\<forall>r \<in> set rs. field_ok E (metadata statement) r))
   \<and> ((\<forall>r \<in> set rs. md statement' (fst r) = md statement (fst r))
        \<longrightarrow> validate E config' statement' rs = validate E config statement rs)
   \<and> (\<forall>e. validate E config statement rs = Some e \<longrightarrow>
         (\<exists>pre name ty req post.
            rs = pre @ (name, ty, req) # post
            \<and> (\<forall>q \<in> set pre. field_ok E (metadata statement) q)
            \<and> \<not> field_ok E (metadata statement) (name, ty, req)
            \<and> e = (if req \<and> is_missing (md statement name)
                    then ValidationError name Missing
                    else ValidationError name (WrongType ty))))"
proof (intro conjI allI impI)
  show "validate E config statement rs = None \<longleftrightarrow>
      (\<forall>r \<in> set rs. field_ok E (metadata statement) r)"
    by (simp add: validate_def validate_fields_None)
next
  assume "\<forall>r \<in> set rs. md statement' (fst r) = md statement (fst r)"
  then have "validate_fields E (metadata statement') rs = validate_fields E (metadata statement) rs"
    by (rule validate_fields_cong)
  then show "validate E config' statement' rs = validate E config statement rs"
    by (simp add: validate_def)
next
  fix e
  assume "validate E config statement rs = Some e"
  then have "validate_fields E (metadata statement) rs = Some e"
    by (simp add: validate_def)
  from validate_fields_first[OF this] obtain pre r post where
    h: "rs = pre @ r # post" "\<forall>q \<in> set pre. field_ok E (metadata statement) q"
       "\<not> field_ok E (metadata statement) r" "check_field E (metadata statement) r = Some e"
    by blast
  obtain name ty req where r: "r = (name, ty, req)"
    by (cases r)
  from h(4) have "e = (if req \<and> is_missing (md statement name)
                    then ValidationError name Missing
                    else ValidationError name (WrongType ty))"
    unfolding r by (rule check_field_error)
  with h(1-3) show "\<exists>pre name ty req post.
            rs = pre @ (name, ty, req) # post
            \<and> (\<forall>q \<in> set pre. field_ok E (metadata statement) q)
            \<and> \<not> field_ok E (metadata statement) (name, ty, req)
            \<and> e = (if req \<and> is_missing (md statement name)
                    then ValidationError name Missing
                    else ValidationError name (WrongType ty))"
    unfolding r by blast
qed

lemma acme_essay_fields_ok:
  "\<forall>r \<in> set create_rules. field_ok acme_env (metadata essay_created) r"
  by (simp add: create_rules_def field_ok_def essay_created_def obj_get_def is_missing_def
        acme_env_def)

lemma acme_view_same_fields:
  "\<forall>r \<in> set view_rules. md essay_viewed_again (fst r) = md essay_viewed (fst r)"
  by (simp add: view_rules_def essay_viewed_again_def essay_viewed_def obj_get_def)

lemma acme_submit_nothing:
  "validate acme_env acme_config submitted_without_anything submit_rules
     = Some (ValidationError ''id'' Missing)"
  by (simp add: validate_def submit_rules_def submitted_without_anything_def check_field_def
        obj_get_def is_missing_def)

theorem validate_contract_witness:
  "validate acme_env acme_config essay_created create_rules = None
   \<and> validate acme_env acme_config essay_viewed_again view_rules
       = validate acme_env acme_config essay_viewed view_rules
   \<and> validate acme_env acme_config submitted_without_anything submit_rules
       = Some (ValidationError ''id'' Missing)
   \<and> (\<exists>pre name ty req post.
         submit_rules = pre @ (name, ty, req) # post
         \<and> (\<forall>q \<in> set pre. field_ok acme_env (metadata submitted_without_anything) q)
         \<and> \<not> field_ok acme_env (metadata submitted_without_anything) (name, ty, req)
         \<and> ValidationError ''id'' Missing
             = (if req \<and> is_missing (md submitted_without_anything name)
                then ValidationError name Missing
                else ValidationError name (WrongType ty)))"
  using validate_contract [of acme_env acme_config essay_created create_rules]
        validate_contract [of acme_env acme_config essay_viewed view_rules essay_viewed_again
                              acme_config]
        validate_contract [of acme_env acme_config submitted_without_anything submit_rules]
        acme_essay_fields_ok acme_view_same_fields acme_submit_nothing
  by blast

subsection \<open>The statement processor and the traces of the builders\<close>

lemma dispatched_processStatement:
  "dispatched (processStatement E config statement opts)
     = [(flat_payload E config statement opts, structured_payload E config statement opts)]"
  by (simp add: processStatement_def Let_def)

lemma callbacks_processStatement:
  "callbacks (processStatement E config statement opts)
     = [case transport_send E (flat_payload E config statement opts)
               (structured_payload E config statement opts) of
          Inl err \<Rightarrow> Failure (TransportError err)
        | Inr result \<Rightarrow> Success result]"
  by (simp add: processStatement_def Let_def)

lemma derivations_processStatement:
  "derivations (processStatement E config statement opts)
     = [(platform config, js_get opts ''verb'',
         uuid_parts (js_get (js_get opts ''XAPI'') ''uuid''))]"
  by (simp add: processStatement_def Let_def)

lemma run_failure:
  "validate E config statement (rules_of op) = Some e \<Longrightarrow>
     run op E config statement = [Callback (Failure e)]"
  by (cases op) (simp_all add: create_def view_def submit_def grade_def feedback_def)

lemma dispatched_create:
  "validate E config statement create_rules = None \<Longrightarrow>
     dispatched (create E config statement)
       = [(flat_payload E config statement (create_descriptor statement),
           structured_payload E config statement (create_descriptor statement))]"
  by (simp add: create_def dispatched_processStatement)

lemma dispatched_view:
  "validate E config statement view_rules = None \<Longrightarrow>
     dispatched (view E config statement)
       = [(flat_payload E config statement (view_descriptor E config statement),
           structured_payload E config statement (view_descriptor E config statement))]"
  by (simp add: view_def dispatched_processStatement)

lemma dispatched_submit:
  "validate E config statement submit_rules = None \<Longrightarrow>
     dispatched (submit E config statement)
       = [(flat_payload E config statement (submit_descriptor E config statement),
           structured_payload E config statement (submit_descriptor E config statement))]"
  by (simp add: submit_def dispatched_processStatement)

lemma dispatched_grade:
  "validate E config statement grade_rules = None \<Longrightarrow>
     dispatched (grade E config statement)
       = [(flat_payload E config statement (grade_descriptor E config statement),
           structured_payload E config statement (grade_descriptor E config statement))]"
  by (simp add: grade_def dispatched_processStatement)

lemma dispatched_feedback:
  "validate E config statement feedback_rules = None \<Longrightarrow>
     dispatched (feedback E config statement)
       = [(flat_payload E config statement (feedback_descriptor E config statement),
           structured_payload E config statement (feedback_descriptor E config statement))]"
  by (simp add: feedback_def dispatched_processStatement)

subsection \<open>The renderers\<close>

lemma set_prune: "set (prune kvs) = {kv \<in> set kvs. \<not> absent (snd kv)}"
  by (simp add: prune_def)

lemma set_merge_into: "set (merge_into base ext) \<subseteq> set base \<union> set ext"
  by (auto simp: merge_into_def)

lemma obj_get_prune:
  "distinct (map fst kvs) \<Longrightarrow>
     obj_get (prune kvs) k = (if absent (obj_get kvs k) then Undefined else obj_get kvs k)"
proof (induction kvs)
  case Nil
  show ?case by (simp add: prune_def obj_get_def)
next
  case (Cons kv kvs)
  obtain k' v where kv: "kv = (k', v)" by (cases kv)
  from Cons.prems have d: "distinct (map fst kvs)" and nk: "k' \<notin> fst ` set kvs"
    by (simp_all add: kv)
  note IH = Cons.IH[OF d]
  show ?case
  proof (cases "k = k'")
    case False
    then have "obj_get (prune (kv # kvs)) k = obj_get (prune kvs) k"
      by (simp add: prune_def obj_get_def kv)
    moreover from False have "obj_get (kv # kvs) k = obj_get kvs k"
      by (simp add: obj_get_def kv)
    ultimately show ?thesis using IH by simp
  next
    case True
    have here: "obj_get (kv # kvs) k = v"
      by (simp add: obj_get_def kv True)
    show ?thesis
    proof (cases "absent v")
      case False
      then have "obj_get (prune (kv # kvs)) k = v"
        by (simp add: prune_def obj_get_def kv True)
      with False here show ?thesis by simp
    next
      case av: True
      from nk have "k' \<notin> fst ` set (prune kvs)"
        by (auto simp: set_prune)
      then have "map_of (prune kvs) k' = None"
        by (simp add: map_of_eq_None_iff)
      moreover from av have "prune (kv # kvs) = prune kvs"
        by (simp add: prune_def kv)
      ultimately have "obj_get (prune (kv # kvs)) k = Undefined"
        by (simp add: obj_get_def True)
      with av here show ?thesis by simp
    qed
  qed
qed

lemma map_of_filter_other:
  "k \<notin> K \<Longrightarrow> map_of (filter (\<lambda>kv. fst kv \<notin> K) base) k = map_of base k"
  by (induction base) auto

lemma obj_get_merge_into:
  "obj_get (merge_into base ext) k
     = (if k \<in> fst ` set ext then obj_get ext k else obj_get base k)"
proof (cases "k \<in> fst ` set ext")
  case True
  have "k \<notin> fst ` set (filter (\<lambda>kv. fst kv \<notin> fst ` set ext) base)"
    using True by force
  then have "map_of (filter (\<lambda>kv. fst kv \<notin> fst ` set ext) base) k = None"
    by (simp only: map_of_eq_None_iff not_False_eq_True)
  then show ?thesis
    using True by (simp add: merge_into_def obj_get_def map_add_def split: option.split)
next
  case False
  then have "map_of ext k = None"
    by (simp add: map_of_eq_None_iff)
  moreover from False
  have "map_of (filter (\<lambda>kv. fst kv \<notin> fst ` set ext) base) k = map_of base k"
    by (rule map_of_filter_other)
  ultimately show ?thesis
    using False by (simp add: merge_into_def obj_get_def map_add_def split: option.split)
qed

lemma js_get_generateEntity_plain:
  "distinct (map fst props) \<Longrightarrow>
     js_get (generateEntity props None) k
       = (if absent (obj_get props k) then Undefined else obj_get props k)"
  by (simp add: generateEntity_def obj_get_merge_into obj_get_prune)

lemma js_get_generateEntity_ext:
  "distinct (map fst props) \<Longrightarrow> k \<notin> fst ` set exts \<Longrightarrow>
     js_get (generateEntity props (Some exts)) k
       = (if absent (obj_get props k) then Undefined else obj_get props k)"
proof -
  assume d: "distinct (map fst props)" and nk: "k \<notin> fst ` set exts"
  from nk have "k \<notin> fst ` set (prune exts)"
    by (auto simp: set_prune)
  then show ?thesis
    using d by (simp add: generateEntity_def obj_get_merge_into obj_get_prune)
qed

lemma generateEntity_values:
  "generateEntity props exts = JObj out \<Longrightarrow> (k, v) \<in> set out \<Longrightarrow> \<not> absent v"
proof -
  assume g: "generateEntity props exts = JObj out" and kv: "(k, v) \<in> set out"
  let ?e = "case exts of None \<Rightarrow> [] | Some e \<Rightarrow> prune e"
  from g have "out = merge_into (prune props) ?e"
    by (simp add: generateEntity_def)
  with kv set_merge_into[of "prune props" ?e]
  have "(k, v) \<in> set (prune props) \<or> (k, v) \<in> set ?e"
    by auto
  then show ?thesis
    by (cases exts) (auto simp: set_prune)
qed

lemma generateEntity_keys:
  "keys_of (generateEntity props exts)
     \<subseteq> fst ` {kv \<in> set props \<union> (case exts of None \<Rightarrow> {} | Some e \<Rightarrow> set e).
                \<not> absent (snd kv)}"
proof -
  let ?e = "case exts of None \<Rightarrow> [] | Some e \<Rightarrow> prune e"
  have "keys_of (generateEntity props exts) = fst ` set (merge_into (prune props) ?e)"
    by (simp add: generateEntity_def)
  also have "\<dots> \<subseteq> fst ` (set (prune props) \<union> set ?e)"
    using set_merge_into[of "prune props" ?e] by blast
  also have "\<dots> \<subseteq> fst ` {kv \<in> set props \<union> (case exts of None \<Rightarrow> {} | Some e \<Rightarrow> set e).
                \<not> absent (snd kv)}"
    by (cases exts) (auto simp: set_prune)
  finally show ?thesis .
qed

subsection \<open>Reading descriptors and payloads\<close>

lemma obj_get_Nil [simp]: "obj_get [] k = Undefined"
  by (simp add: obj_get_def)

lemma obj_get_Cons [simp]: "obj_get ((k', v) # kvs) k = (if k = k' then v else obj_get kvs k)"
  by (simp add: obj_get_def)

lemma absent_prune_deep [simp]: "absent (prune_deep v) = absent v"
  by (cases v) (simp_all add: absent_def)

lemma prune_deep_generateUuid [simp]:
  "prune_deep (generateUuid E namespace verb parts) = generateUuid E namespace verb parts"
  by (simp add: generateUuid_def)

lemma not_absent_generateUuid [simp]: "\<not> absent (generateUuid E namespace verb parts)"
  by (simp add: generateUuid_def absent_def)

lemma flat_payload_id:
  "js_get (flat_payload E config statement opts) ''id''
     = generateUuid E (platform config) (js_get opts ''verb'')
         (uuid_parts (js_get (js_get opts ''XAPI'') ''uuid''))"
  by (simp add: flat_payload_def obj_get_prune)

lemma flat_payload_object:
  "js_get (flat_payload E config statement opts) ''object''
     = (if absent (js_get (js_get opts ''XAPI'') ''object'') then Undefined
        else prune_deep (js_get (js_get opts ''XAPI'') ''object''))"
  by (simp add: flat_payload_def obj_get_prune)

lemma flat_payload_result:
  "js_get (flat_payload E config statement opts) ''result''
     = (if absent (js_get (js_get opts ''XAPI'') ''result'') then Undefined
        else prune_deep (js_get (js_get opts ''XAPI'') ''result''))"
  by (simp add: flat_payload_def obj_get_prune)

lemma not_absent_generateEntity [simp]: "\<not> absent (generateEntity props exts)"
  by (simp add: generateEntity_def absent_def)

lemma structured_payload_type:
  "js_get (structured_payload E config statement opts) ''type''
     = (if absent (js_get (js_get opts ''CALIPER'') ''type'') then Undefined
        else js_get (js_get opts ''CALIPER'') ''type'')"
  by (simp add: structured_payload_def obj_get_prune)

lemma structured_payload_object:
  "js_get (structured_payload E config statement opts) ''object''
     = (if absent (js_get (js_get opts ''CALIPER'') ''object'') then Undefined
        else js_get (js_get opts ''CALIPER'') ''object'')"
  by (simp add: structured_payload_def obj_get_prune)

lemma structured_payload_generated:
  "js_get (structured_payload E config statement opts) ''generated''
     = (if absent (js_get (js_get opts ''CALIPER'') ''generated'') then Undefined
        else js_get (js_get opts ''CALIPER'') ''generated'')"
  by (simp add: structured_payload_def obj_get_prune)

lemma js_get_missing_key: "k \<notin> keys_of obj \<Longrightarrow> js_get obj k = Undefined"
proof (cases obj)
  case (JObj kvs)
  assume "k \<notin> keys_of obj"
  then have "map_of kvs k = None"
    by (simp add: JObj map_of_eq_None_iff)
  then show ?thesis
    by (simp add: JObj obj_get_def)
qed simp_all

lemma payloads_of_dispatch:
  "dispatched tr = [(f, s)] \<Longrightarrow> flat_of tr = f \<and> structured_of tr = s"
  by (simp add: flat_of_def structured_of_def)

lemma create_xapi_object:
  "js_get (js_get (create_descriptor statement) ''XAPI'') ''object''
     = JObj [
         (''id'', md statement ''id''),
         (''type'', JTerm ACTIVITY_TYPES_ASSESSMENT_id),
         (''name'', md statement ''title''),
         (''description'', md statement ''description''),
         (submissions_types_key, md statement ''submission_types'')]"
  by (simp add: create_descriptor_def)

lemma create_caliper_object:
  "js_get (js_get (create_descriptor statement) ''CALIPER'') ''object''
     = generateEntity [
         (''type'', JTerm CaliperDigitalResourceType_ASSIGNABLE_DIGITAL_RESOURCE),
         (''id'', md statement ''id''),
         (''name'', md statement ''title''),
         (''description'', md statement ''description''),
         (''dateToSubmit'', md statement ''due_at''),
         (''maxScore'', md statement ''max_points'')]
        (Some [(submissions_types_key, md statement ''submission_types'')])"
  by (simp add: create_descriptor_def)

lemma create_flat_object:
  "validate E config statement create_rules = None \<Longrightarrow>
     js_get (flat_of (create E config statement)) ''object''
       = JObj (prune [
           (''id'', prune_deep (md statement ''id'')),
           (''type'', JTerm ACTIVITY_TYPES_ASSESSMENT_id),
           (''name'', prune_deep (md statement ''title'')),
           (''description'', prune_deep (md statement ''description'')),
           (submissions_types_key, prune_deep (md statement ''submission_types''))])"
  by (simp add: payloads_of_dispatch[OF dispatched_create] flat_payload_object
        create_xapi_object absent_def)

lemma create_required_strings:
  assumes "validate E config statement create_rules = None"
  shows "\<exists>i. md statement ''id'' = JStr i" and "\<exists>t. md statement ''title'' = JStr t"
proof -
  from assms have ok: "\<forall>r \<in> set create_rules. field_ok E (metadata statement) r"
    by (simp add: validate_def validate_fields_None)
  then have "field_ok E (metadata statement) (''id'', TUri, True)"
    by (simp add: create_rules_def)
  then show "\<exists>i. md statement ''id'' = JStr i"
    by (cases "md statement ''id''") (simp_all add: field_ok_def)
  from ok have "field_ok E (metadata statement) (''title'', TString, True)"
    by (simp add: create_rules_def)
  then show "\<exists>t. md statement ''title'' = JStr t"
    by (cases "md statement ''title''") (simp_all add: field_ok_def)
qed

lemma create_id_present:
  assumes "validate E config statement create_rules = None"
  shows "\<not> absent (md statement ''id'')"
  using create_required_strings(1)[OF assms] by (auto simp: absent_def)

lemma create_flat_object_id:
  assumes v: "validate E config statement create_rules = None"
  shows "js_get (js_get (flat_of (create E config statement)) ''object'') ''id''
       = md statement ''id''"
proof -
  from create_required_strings(1)[OF v] obtain i where i: "md statement ''id'' = JStr i"
    by blast
  show ?thesis
    by (simp add: create_flat_object[OF v] obj_get_prune i absent_def)
qed

lemma create_flat_object_name:
  assumes v: "validate E config statement create_rules = None"
  shows "js_get (js_get (flat_of (create E config statement)) ''object'') ''name''
       = md statement ''title''"
proof -
  from create_required_strings(2)[OF v] obtain t where t: "md statement ''title'' = JStr t"
    by blast
  show ?thesis
    by (simp add: create_flat_object[OF v] obj_get_prune t absent_def)
qed

lemma create_structured_object_id:
  assumes v: "validate E config statement create_rules = None"
  shows "js_get (js_get (structured_of (create E config statement)) ''object'') ''id''
       = md statement ''id''"
proof -
  have "js_get (js_get (structured_of (create E config statement)) ''object'') ''id''
      = (if absent (md statement ''id'') then Undefined else md statement ''id'')"
    by (simp add: payloads_of_dispatch[OF dispatched_create[OF v]] structured_payload_object
          create_caliper_object js_get_generateEntity_ext)
  with create_id_present[OF v] show ?thesis by simp
qed

lemma create_structured_object_name:
  assumes v: "validate E config statement create_rules = None"
  shows "js_get (js_get (structured_of (create E config statement)) ''object'') ''name''
       = md statement ''title''"
proof -
  from create_required_strings(2)[OF v] obtain t where t: "md statement ''title'' = JStr t"
    by blast
  have "js_get (js_get (structured_of (create E config statement)) ''object'') ''name''
      = (if absent (md statement ''title'') then Undefined else md statement ''title'')"
    by (simp add: payloads_of_dispatch[OF dispatched_create[OF v]] structured_payload_object
          create_caliper_object js_get_generateEntity_ext)
  with t show ?thesis by (simp add: absent_def)
qed

lemma create_without_description:
  assumes v: "validate E config statement create_rules = None"
    and d: "md statement ''description'' = Undefined"
  shows "''description'' \<notin> keys_of (js_get (flat_of (create E config statement)) ''object'')"
    and "''description'' \<notin> keys_of (js_get (structured_of (create E config statement)) ''object'')"
proof -
  note p = payloads_of_dispatch[OF dispatched_create[OF v]]
  show "''description'' \<notin> keys_of (js_get (flat_of (create E config statement)) ''object'')"
    by (auto simp: create_flat_object[OF v] set_prune d absent_def)
  have "''description'' \<notin> fst ` {kv \<in> set [
         (''type'', JTerm CaliperDigitalResourceType_ASSIGNABLE_DIGITAL_RESOURCE),
         (''id'', md statement ''id''),
         (''name'', md statement ''title''),
         (''description'', md statement ''description''),
         (''dateToSubmit'', md statement ''due_at''),
         (''maxScore'', md statement ''max_points'')]
       \<union> (case Some [(submissions_types_key, md statement ''submission_types'')] of
            None \<Rightarrow> {} | Some e \<Rightarrow> set e). \<not> absent (snd kv)}"
    by (auto simp: d absent_def)
  moreover
  have "js_get (structured_of (create E config statement)) ''object''
      = generateEntity [
         (''type'', JTerm CaliperDigitalResourceType_ASSIGNABLE_DIGITAL_RESOURCE),
         (''id'', md statement ''id''),
         (''name'', md statement ''title''),
         (''description'', md statement ''description''),
         (''dateToSubmit'', md statement ''due_at''),
         (''maxScore'', md statement ''max_points'')]
        (Some [(submissions_types_key, md statement ''submission_types'')])"
    by (simp add: p structured_payload_object create_caliper_object)
  ultimately
  show "''description'' \<notin> keys_of (js_get (structured_of (create E config statement)) ''object'')"
    using generateEntity_keys by fastforce
qed

subsection \<open>Pruning of absent attributes\<close>

lemma acme_essay_valid:
  "validate acme_env acme_config essay_created create_rules = None"
  by (simp add: validate_def validate_fields_None acme_essay_fields_ok)

lemma acme_essay_no_description: "md essay_created ''description'' = Undefined"
  by (simp add: essay_created_def)

lemma generatePerson_values:
  "generatePerson a = JObj out \<Longrightarrow> (k, v) \<in> set out \<Longrightarrow> \<not> absent v"
  unfolding generatePerson_def by (rule generateEntity_values)

lemma generatePerson_no_id:
  "absent (getUserId a) \<Longrightarrow> ''id'' \<notin> keys_of (generatePerson a)"
proof -
  assume "absent (getUserId a)"
  then have "''id'' \<notin> fst ` {kv \<in> set [(''type'', JTerm Caliper_PERSON), (''id'', getUserId a)]
       \<union> (case None of None \<Rightarrow> {} | Some e \<Rightarrow> set e). \<not> absent (snd kv)}"
    by auto
  with generateEntity_keys show ?thesis
    unfolding generatePerson_def by blast
qed

lemma generateEntity_omits:
  assumes "\<forall>v. (k, v) \<in> set props \<union> (case exts of None \<Rightarrow> {} | Some e \<Rightarrow> set e)
              \<longrightarrow> absent v"
  shows "k \<notin> keys_of (generateEntity props exts)"
proof -
  from assms
  have "k \<notin> fst ` {kv \<in> set props \<union> (case exts of None \<Rightarrow> {} | Some e \<Rightarrow> set e).
                \<not> absent (snd kv)}"
    by force
  with generateEntity_keys show ?thesis by blast
qed

lemma create_scenario:
  assumes v: "validate E config statement create_rules = None"
    and d: "md statement ''description'' = Undefined"
  shows "\<exists>flat structured.
           dispatched (create E config statement) = [(flat, structured)]
           \<and> ''description'' \<notin> keys_of (js_get flat ''object'')
           \<and> ''description'' \<notin> keys_of (js_get structured ''object'')
           \<and> js_get (js_get flat ''object'') ''id'' = md statement ''id''
           \<and> js_get (js_get flat ''object'') ''name'' = md statement ''title''
           \<and> js_get (js_get structured ''object'') ''id'' = md statement ''id''
           \<and> js_get (js_get structured ''object'') ''name'' = md statement ''title''"
proof -
  let ?flat = "flat_payload E config statement (create_descriptor statement)"
  let ?structured = "structured_payload E config statement (create_descriptor statement)"
  have disp: "dispatched (create E config statement) = [(?flat, ?structured)]"
    using v by (rule dispatched_create)
  note p = payloads_of_dispatch[OF disp]
  from create_without_description[OF v d] create_flat_object_id[OF v]
    create_flat_object_name[OF v] create_structured_object_id[OF v]
    create_structured_object_name[OF v]
  have "''description'' \<notin> keys_of (js_get ?flat ''object'')
      \<and> ''description'' \<notin> keys_of (js_get ?structured ''object'')
      \<and> js_get (js_get ?flat ''object'') ''id'' = md statement ''id''
      \<and> js_get (js_get ?flat ''object'') ''name'' = md statement ''title''
      \<and> js_get (js_get ?structured ''object'') ''id'' = md statement ''id''
      \<and> js_get (js_get ?structured ''object'') ''name'' = md statement ''title''"
    unfolding p[THEN conjunct1] p[THEN conjunct2] by blast
  with disp show ?thesis by blast
qed

text \<open>
  C6. Optional-attribute pruning. Every value that the entity renderer and the person
  renderer put in their output is a value that is not absent; an attribute whose
  supplied values are all absent is omitted entirely (its key is not in the output); a
  person whose actor has no user identifier has no \<open>id\<close>. In particular, when
  \<open>create\<close> is called without a description and passes validation, it dispatches one
  pair of payloads; the object of the flat-format payload and the object entity of the
  structured-format payload both carry the assignment's id and its title as name, and
  neither has the key \<open>description\<close>.
\<close>

theorem absent_attributes_are_pruned:
  "(\<forall>out k v. generateEntity props exts = JObj out \<longrightarrow> (k, v) \<in> set out \<longrightarrow> \<not> absent v)
   \<and> ((\<forall>v. (k, v) \<in> set props \<union> (case exts of None \<Rightarrow> {} | Some e \<Rightarrow> set e)
             \<longrightarrow> absent v)
        \<longrightarrow> k \<notin> keys_of (generateEntity props exts))
   \<and> (\<forall>out k v. generatePerson a = JObj out \<longrightarrow> (k, v) \<in> set out \<longrightarrow> \<not> absent v)
   \<and> (absent (getUserId a) \<longrightarrow> ''id'' \<notin> keys_of (generatePerson a))
   \<and> (validate E config statement create_rules = None
        \<and> md statement ''description'' = Undefined \<longrightarrow>
          (\<exists>flat structured.
             dispatched (create E config statement) = [(flat, structured)]
             \<and> ''description'' \<notin> keys_of (js_get flat ''object'')
             \<and> ''description'' \<notin> keys_of (js_get structured ''object'')
             \<and> js_get (js_get flat ''object'') ''id'' = md statement ''id''
             \<and> js_get (js_get flat ''object'') ''name'' = md statement ''title''
             \<and> js_get (js_get structured ''object'') ''id'' = md statement ''id''
             \<and> js_get (js_get structured ''object'') ''name'' = md statement ''title''))"
proof (intro conjI allI impI)
  show "\<not> absent v" if "generateEntity props exts = JObj out" "(k, v) \<in> set out" for out k v
    using that by (rule generateEntity_values)
  show "k \<notin> keys_of (generateEntity props exts)"
    if "\<forall>v. (k, v) \<in> set props \<union> (case exts of None \<Rightarrow> {} | Some e \<Rightarrow> set e) \<longrightarrow> absent v"
    using that by (rule generateEntity_omits)
  show "\<not> absent v" if "generatePerson a = JObj out" "(k, v) \<in> set out" for out k v
    using that by (rule generatePerson_values)
  show "''id'' \<notin> keys_of (generatePerson a)" if "absent (getUserId a)"
    using that by (rule generatePerson_no_id)
  show "\<exists>flat structured.
             dispatched (create E config statement) = [(flat, structured)]
             \<and> ''description'' \<notin> keys_of (js_get flat ''object'')
             \<and> ''description'' \<notin> keys_of (js_get structured ''object'')
             \<and> js_get (js_get flat ''object'') ''id'' = md statement ''id''
             \<and> js_get (js_get flat ''object'') ''name'' = md statement ''title''
             \<and> js_get (js_get structured ''object'') ''id'' = md statement ''id''
             \<and> js_get (js_get structured ''object'') ''name'' = md statement ''title''"
    if "validate E config statement create_rules = None
        \<and> md statement ''description'' = Undefined"
    using that create_scenario by blast
qed

theorem absent_attributes_are_pruned_witness:
  "''description''
     \<notin> keys_of (generateEntity [(''id'', JStr ''https://x/a1''), (''description'', Undefined)]
                  (Some [(''description'', Null)]))
   \<and> ''id'' \<notin> keys_of (generatePerson (JObj [(''name'', JStr ''Ada'')]))
   \<and> (\<exists>flat structured.
         dispatched (create acme_env acme_config essay_created) = [(flat, structured)]
         \<and> ''description'' \<notin> keys_of (js_get flat ''object'')
         \<and> ''description'' \<notin> keys_of (js_get structured ''object'')
         \<and> js_get (js_get flat ''object'') ''id'' = JStr ''https://x/a1''
         \<and> js_get (js_get flat ''object'') ''name'' = JStr ''Essay''
         \<and> js_get (js_get structured ''object'') ''id'' = JStr ''https://x/a1''
         \<and> js_get (js_get structured ''object'') ''name'' = JStr ''Essay'')"
proof -
  have h1: "\<forall>v. (''description'', v) \<in> set [(''id'', JStr ''https://x/a1''), (''description'', Undefined)]
                 \<union> (case Some [(''description'', Null)] of None \<Rightarrow> {} | Some e \<Rightarrow> set e)
              \<longrightarrow> absent v"
    by (simp add: absent_def)
  have h2: "absent (getUserId (JObj [(''name'', JStr ''Ada'')]))"
    by (simp add: absent_def getUserId_def)
  have m: "md essay_created ''id'' = JStr ''https://x/a1''"
      "md essay_created ''title'' = JStr ''Essay''"
    by (simp_all add: essay_created_def)
  note t = absent_attributes_are_pruned
    [of "[(''id'', JStr ''https://x/a1''), (''description'', Undefined)]"
        "Some [(''description'', Null)]" "''description''" "JObj [(''name'', JStr ''Ada'')]"
        acme_env acme_config essay_created]
  from t h1 h2 acme_essay_valid acme_essay_no_description show ?thesis
    unfolding m by blast
qed

subsection \<open>The scaled score of grade\<close>

lemma grade_xapi_result:
  "js_get (js_get (grade_descriptor E config statement) ''XAPI'') ''result''
     = JObj [(''score'', JObj [
         (''raw'', md statement ''grade''),
         (''min'', md statement ''grade_min''),
         (''max'', md statement ''grade_max''),
         (''scaled'', scaled_score statement)])]"
  by (simp add: grade_descriptor_def)

lemma grade_caliper_generated:
  "js_get (js_get (grade_descriptor E config statement) ''CALIPER'') ''generated''
     = generateEntity [
         (''type'', JTerm CaliperEntityType_RESULT),
         (''assignable'', md statement ''assignment''),
         (''totalScore'', md statement ''grade''),
         (''normalScore'', scaled_score statement),
         (''scoredBy'', generatePerson (actor statement))] None"
  by (simp add: grade_descriptor_def)

lemma grade_flat_score:
  "validate E config statement grade_rules = None \<Longrightarrow>
     js_get (js_get (flat_of (grade E config statement)) ''result'') ''score''
       = JObj (prune [
           (''raw'', prune_deep (md statement ''grade'')),
           (''min'', prune_deep (md statement ''grade_min'')),
           (''max'', prune_deep (md statement ''grade_max'')),
           (''scaled'', prune_deep (scaled_score statement))])"
proof -
  assume v: "validate E config statement grade_rules = None"
  let ?score = "JObj (prune [
           (''raw'', prune_deep (md statement ''grade'')),
           (''min'', prune_deep (md statement ''grade_min'')),
           (''max'', prune_deep (md statement ''grade_max'')),
           (''scaled'', prune_deep (scaled_score statement))])"
  have "js_get (flat_of (grade E config statement)) ''result'' = JObj (prune [(''score'', ?score)])"
    by (simp add: payloads_of_dispatch[OF dispatched_grade[OF v]] flat_payload_result
          grade_xapi_result absent_def)
  moreover have "prune [(''score'', ?score)] = [(''score'', ?score)]"
    unfolding prune_def[of "[(''score'', ?score)]"] by (simp add: absent_def)
  ultimately show ?thesis by simp
qed

lemma grade_flat_scaled_number:
  "validate E config statement grade_rules = None \<Longrightarrow> scaled_score statement = JNum x \<Longrightarrow>
     js_get (js_get (js_get (flat_of (grade E config statement)) ''result'') ''score'') ''scaled''
       = JNum x"
  by (simp add: grade_flat_score obj_get_prune absent_def)

lemma grade_flat_scaled_absent:
  "validate E config statement grade_rules = None \<Longrightarrow> absent (scaled_score statement) \<Longrightarrow>
     ''scaled''
       \<notin> keys_of (js_get (js_get (flat_of (grade E config statement)) ''result'') ''score'')"
  by (auto simp: grade_flat_score set_prune)

lemma grade_structured_generated:
  "validate E config statement grade_rules = None \<Longrightarrow>
     js_get (structured_of (grade E config statement)) ''generated''
       = generateEntity [
         (''type'', JTerm CaliperEntityType_RESULT),
         (''assignable'', md statement ''assignment''),
         (''totalScore'', md statement ''grade''),
         (''normalScore'', scaled_score statement),
         (''scoredBy'', generatePerson (actor statement))] None"
  by (simp add: payloads_of_dispatch[OF dispatched_grade] structured_payload_generated
        grade_caliper_generated)

lemma grade_structured_normalScore:
  "validate E config statement grade_rules = None \<Longrightarrow>
     js_get (js_get (structured_of (grade E config statement)) ''generated'') ''normalScore''
       = (if absent (scaled_score statement) then Undefined else scaled_score statement)"
  by (simp add: grade_structured_generated js_get_generateEntity_plain)

lemma grade_structured_normalScore_absent:
  assumes v: "validate E config statement grade_rules = None"
    and a: "absent (scaled_score statement)"
  shows "''normalScore''
      \<notin> keys_of (js_get (structured_of (grade E config statement)) ''generated'')"
proof -
  have "\<forall>x. (''normalScore'', x) \<in> set [
         (''type'', JTerm CaliperEntityType_RESULT),
         (''assignable'', md statement ''assignment''),
         (''totalScore'', md statement ''grade''),
         (''normalScore'', scaled_score statement),
         (''scoredBy'', generatePerson (actor statement))]
       \<union> (case None of None \<Rightarrow> {} | Some e \<Rightarrow> set e) \<longrightarrow> absent x"
    by (simp add: a)
  then show ?thesis
    unfolding grade_structured_generated[OF v] by (rule generateEntity_omits)
qed

lemma grade_fields:
  assumes "validate E config statement grade_rules = None"
  shows "\<exists>g. md statement ''grade'' = JNum g"
    and "md statement ''grade_max'' = Undefined
         \<or> (\<exists>m. md statement ''grade_max'' = JNum m \<and> m \<noteq> NaN)"
proof -
  from assms have ok: "\<forall>r \<in> set grade_rules. field_ok E (metadata statement) r"
    by (simp add: validate_def validate_fields_None)
  then have "field_ok E (metadata statement) (''grade'', TNumber, True)"
    by (simp add: grade_rules_def)
  then show "\<exists>g. md statement ''grade'' = JNum g"
    by (cases "md statement ''grade''") (simp_all add: field_ok_def)
  from ok have "field_ok E (metadata statement) (''grade_max'', TNumber, False)"
    by (simp add: grade_rules_def)
  then show "md statement ''grade_max'' = Undefined
         \<or> (\<exists>m. md statement ''grade_max'' = JNum m \<and> m \<noteq> NaN)"
    by (cases "md statement ''grade_max''") (simp_all add: field_ok_def)
qed

lemma grade_division_operands:
  assumes "validate E config statement grade_rules = None"
    and "truthy (md statement ''grade_max'')"
  shows "\<exists>g m. md statement ''grade'' = JNum g \<and> md statement ''grade_max'' = JNum m
           \<and> \<not> is_zero m \<and> m \<noteq> NaN"
proof -
  from grade_fields[OF assms(1)] obtain g where g: "md statement ''grade'' = JNum g"
    by blast
  from grade_fields(2)[OF assms(1)] assms(2) obtain m where m: "md statement ''grade_max'' = JNum m"
    by auto
  with assms(2) have "\<not> is_zero m \<and> m \<noteq> NaN" by simp
  with g m show ?thesis by blast
qed

lemma is_zero_cases: "is_zero m \<Longrightarrow> m = Fin 0 \<or> m = NegZero"
  by (cases m) simp_all

lemma scaled_score_number:
  "md statement ''grade'' = JNum g \<Longrightarrow> md statement ''grade_max'' = JNum m \<Longrightarrow>
   \<not> is_zero m \<Longrightarrow> m \<noteq> NaN \<Longrightarrow>
     scaled_score statement = JNum (num_div g m)"
  by (simp add: scaled_score_def)

lemma scaled_score_absent_max:
  "md statement ''grade_max'' = Undefined \<Longrightarrow> scaled_score statement = Null"
  by (simp add: scaled_score_def)

lemma acme_graded_valid:
  "validate acme_env acme_config graded_45_of_50 grade_rules = None"
proof -
  have "\<forall>r \<in> set grade_rules. field_ok acme_env (metadata graded_45_of_50) r"
    by (simp add: grade_rules_def field_ok_def graded_45_of_50_def is_missing_def acme_env_def)
  then show ?thesis
    by (simp only: validate_def validate_fields_None)
qed

lemma acme_graded_without_max_valid:
  "validate acme_env acme_config graded_without_max grade_rules = None"
proof -
  have "\<forall>r \<in> set grade_rules. field_ok acme_env (metadata graded_without_max) r"
    by (simp add: grade_rules_def field_ok_def graded_without_max_def is_missing_def
          acme_env_def)
  then show ?thesis
    by (simp only: validate_def validate_fields_None)
qed

lemma acme_graded_without_max_absent: "md graded_without_max ''grade_max'' = Undefined"
  by (simp add: graded_without_max_def)

lemma binary64_45_by_50:
  "num_div (Fin 45) (Fin 50) = Fin (8106479329266893 / 9007199254740992)"
  by code_simp

lemma grade_scaled_present:
  assumes v: "validate E config statement grade_rules = None"
    and p: "md statement ''grade_max'' \<noteq> Undefined
        \<and> md statement ''grade_max'' \<noteq> JNum (Fin 0)
        \<and> md statement ''grade_max'' \<noteq> JNum NegZero"
  shows "\<exists>g m. md statement ''grade'' = JNum g \<and> md statement ''grade_max'' = JNum m
           \<and> js_get (js_get (js_get (flat_of (grade E config statement)) ''result'') ''score'')
                ''scaled'' = JNum (num_div g m)
           \<and> js_get (js_get (structured_of (grade E config statement)) ''generated'')
                ''normalScore'' = JNum (num_div g m)"
proof -
  from grade_fields(2)[OF v] p obtain m where
    m: "md statement ''grade_max'' = JNum m" and nn: "m \<noteq> NaN"
    by blast
  from p m have nz: "\<not> is_zero m"
    using is_zero_cases[of m] by auto
  from grade_fields(1)[OF v] obtain g where g: "md statement ''grade'' = JNum g"
    by blast
  have s: "scaled_score statement = JNum (num_div g m)"
    using g m nz nn by (rule scaled_score_number)
  have "js_get (js_get (js_get (flat_of (grade E config statement)) ''result'') ''score'')
          ''scaled'' = JNum (num_div g m)"
    using v s by (rule grade_flat_scaled_number)
  moreover
  have "js_get (js_get (structured_of (grade E config statement)) ''generated'')
          ''normalScore'' = JNum (num_div g m)"
    by (simp add: grade_structured_normalScore[OF v] s absent_def)
  ultimately show ?thesis using g m by blast
qed

lemma grade_scaled_absent:
  assumes v: "validate E config statement grade_rules = None"
    and a: "md statement ''grade_max'' = Undefined"
  shows "''scaled''
           \<notin> keys_of (js_get (js_get (flat_of (grade E config statement)) ''result'') ''score'')
         \<and> ''normalScore''
           \<notin> keys_of (js_get (structured_of (grade E config statement)) ''generated'')
         \<and> js_get (js_get (js_get (flat_of (grade E config statement)) ''result'') ''score'')
              ''scaled'' = Undefined
         \<and> js_get (js_get (structured_of (grade E config statement)) ''generated'')
              ''normalScore'' = Undefined"
proof -
  from a have s: "absent (scaled_score statement)"
    by (simp add: scaled_score_absent_max absent_def)
  note f = grade_flat_scaled_absent[OF v s]
  note c = grade_structured_normalScore_absent[OF v s]
  from f c js_get_missing_key[OF f] js_get_missing_key[OF c] show ?thesis
    by blast
qed

text \<open>
  C1. When \<open>grade\<close> passes validation it dispatches one pair of payloads. When
  \<open>grade_max\<close> is present and non-zero, both carry the scaled score, the quotient
  \<open>grade / grade_max\<close> of the two numbers: \<open>result.score.scaled\<close> in the flat format,
  \<open>normalScore\<close> of the generated entity in the structured format. When \<open>grade_max\<close>
  is absent, the score of neither payload has the key (\<open>scaled\<close>, \<open>normalScore\<close>):
  reading it gives \<open>undefined\<close>, not zero and not \<open>null\<close>. The builder passes
  \<open>null\<close> for the scaled score in that case, and the rendering prunes it.
\<close>

theorem grade_scaled_score:
  "validate E config statement grade_rules = None \<Longrightarrow>
     dispatched (grade E config statement)
       = [(flat_of (grade E config statement), structured_of (grade E config statement))]
     \<and> (md statement ''grade_max'' \<noteq> Undefined
          \<and> md statement ''grade_max'' \<noteq> JNum (Fin 0)
          \<and> md statement ''grade_max'' \<noteq> JNum NegZero \<longrightarrow>
        (\<exists>g m. md statement ''grade'' = JNum g \<and> md statement ''grade_max'' = JNum m
           \<and> js_get (js_get (js_get (flat_of (grade E config statement)) ''result'') ''score'')
                ''scaled'' = JNum (num_div g m)
           \<and> js_get (js_get (structured_of (grade E config statement)) ''generated'')
                ''normalScore'' = JNum (num_div g m)))
     \<and> (md statement ''grade_max'' = Undefined \<longrightarrow>
          ''scaled''
            \<notin> keys_of (js_get (js_get (flat_of (grade E config statement)) ''result'') ''score'')
          \<and> ''normalScore''
            \<notin> keys_of (js_get (structured_of (grade E config statement)) ''generated'')
          \<and> js_get (js_get (js_get (flat_of (grade E config statement)) ''result'') ''score'')
               ''scaled'' = Undefined
          \<and> js_get (js_get (structured_of (grade E config statement)) ''generated'')
               ''normalScore'' = Undefined)"
proof (intro conjI impI)
  assume v: "validate E config statement grade_rules = None"
  show "dispatched (grade E config statement)
       = [(flat_of (grade E config statement), structured_of (grade E config statement))]"
    by (simp add: dispatched_grade[OF v] flat_of_def structured_of_def)
  show "\<exists>g m. md statement ''grade'' = JNum g \<and> md statement ''grade_max'' = JNum m
           \<and> js_get (js_get (js_get (flat_of (grade E config statement)) ''result'') ''score'')
                ''scaled'' = JNum (num_div g m)
           \<and> js_get (js_get (structured_of (grade E config statement)) ''generated'')
                ''normalScore'' = JNum (num_div g m)"
    if "md statement ''grade_max'' \<noteq> Undefined
          \<and> md statement ''grade_max'' \<noteq> JNum (Fin 0)
          \<and> md statement ''grade_max'' \<noteq> JNum NegZero"
    using v that by (rule grade_scaled_present)
  assume a: "md statement ''grade_max'' = Undefined"
  note r = grade_scaled_absent[OF v a]
  show "''scaled''
      \<notin> keys_of (js_get (js_get (flat_of (grade E config statement)) ''result'') ''score'')"
    using r by blast
  show "''normalScore''
      \<notin> keys_of (js_get (structured_of (grade E config statement)) ''generated'')"
    using r by blast
  show "js_get (js_get (js_get (flat_of (grade E config statement)) ''result'') ''score'')
               ''scaled'' = Undefined"
    using r by blast
  show "js_get (js_get (structured_of (grade E config statement)) ''generated'')
               ''normalScore'' = Undefined"
    using r by blast
qed

theorem grade_scaled_score_witness:
  "js_get (js_get (js_get (flat_of (grade acme_env acme_config graded_45_of_50)) ''result'')
            ''score'') ''scaled'' = JNum (Fin (8106479329266893 / 9007199254740992))
   \<and> js_get (js_get (structured_of (grade acme_env acme_config graded_45_of_50)) ''generated'')
        ''normalScore'' = JNum (Fin (8106479329266893 / 9007199254740992))
   \<and> ''scaled''
        \<notin> keys_of (js_get (js_get (flat_of (grade acme_env acme_config graded_without_max))
                     ''result'') ''score'')
   \<and> ''normalScore''
        \<notin> keys_of (js_get (structured_of (grade acme_env acme_config graded_without_max))
                     ''generated'')"
proof -
  have present: "md graded_45_of_50 ''grade_max'' \<noteq> Undefined
      \<and> md graded_45_of_50 ''grade_max'' \<noteq> JNum (Fin 0)
      \<and> md graded_45_of_50 ''grade_max'' \<noteq> JNum NegZero"
    by (simp add: graded_45_of_50_def)
  from grade_scaled_score[OF acme_graded_valid] present
  obtain g m where gm: "md graded_45_of_50 ''grade'' = JNum g"
      "md graded_45_of_50 ''grade_max'' = JNum m"
      "js_get (js_get (js_get (flat_of (grade acme_env acme_config graded_45_of_50)) ''result'')
            ''score'') ''scaled'' = JNum (num_div g m)"
      "js_get (js_get (structured_of (grade acme_env acme_config graded_45_of_50)) ''generated'')
        ''normalScore'' = JNum (num_div g m)"
    by blast
  from gm(1,2) have "g = Fin 45" "m = Fin 50"
    by (simp_all add: graded_45_of_50_def)
  then have q: "num_div g m = Fin (8106479329266893 / 9007199254740992)"
    by (simp only: binary64_45_by_50)
  from grade_scaled_score[OF acme_graded_without_max_valid] acme_graded_without_max_absent
  have "''scaled''
        \<notin> keys_of (js_get (js_get (flat_of (grade acme_env acme_config graded_without_max))
                     ''result'') ''score'')
   \<and> ''normalScore''
        \<notin> keys_of (js_get (structured_of (grade acme_env acme_config graded_without_max))
                     ''generated'')"
    by blast
  with gm(3,4) show ?thesis
    unfolding q by blast
qed

subsection \<open>The structured-format event type\<close>

lemma grade_caliper_type:
  "js_get (js_get (grade_descriptor E config statement) ''CALIPER'') ''type'' = JStr []"
  by (simp add: grade_descriptor_def)

lemma grade_caliper_keys:
  "keys_of (js_get (grade_descriptor E config statement) ''CALIPER'')
     = {''type'', ''object'', ''generated''}"
  by (simp add: grade_descriptor_def) 

lemma feedback_caliper_keys:
  "keys_of (js_get (feedback_descriptor E config statement) ''CALIPER'')
     = {''object'', ''target''}"
  by (simp add: feedback_descriptor_def)

text \<open>
  C9. The structured-format template that \<open>grade\<close> passes to \<open>processStatement\<close> has
  the field \<open>type\<close>, bound to the empty string; the one that \<open>feedback\<close> passes has
  the fields \<open>object\<close> and \<open>target\<close> and no \<open>type\<close>. Neither supplies a term of
  the controlled vocabulary, and the structured-format payloads carry the type as the
  templates give it: the empty string for \<open>grade\<close>, none for \<open>feedback\<close>.
\<close>

theorem blank_structured_event_type:
  "''type'' \<in> keys_of (js_get (grade_descriptor E config statement) ''CALIPER'')
   \<and> js_get (js_get (grade_descriptor E config statement) ''CALIPER'') ''type'' = JStr []
   \<and> ''type'' \<notin> keys_of (js_get (feedback_descriptor E config statement) ''CALIPER'')
   \<and> \<not> has_field (js_get (feedback_descriptor E config statement) ''CALIPER'') ''type''
   \<and> (\<forall>t. js_get (js_get (grade_descriptor E config statement) ''CALIPER'') ''type'' \<noteq> JTerm t)
   \<and> (\<forall>t. js_get (js_get (feedback_descriptor E config statement) ''CALIPER'') ''type''
            \<noteq> JTerm t)
   \<and> (validate E config statement grade_rules = None \<longrightarrow>
         js_get (structured_of (grade E config statement)) ''type'' = JStr [])
   \<and> (validate E config statement feedback_rules = None \<longrightarrow>
         js_get (structured_of (feedback E config statement)) ''type'' = Undefined)"
proof (intro conjI impI allI)
  show "''type'' \<in> keys_of (js_get (grade_descriptor E config statement) ''CALIPER'')"
    by (simp add: grade_caliper_keys)
  show "js_get (js_get (grade_descriptor E config statement) ''CALIPER'') ''type'' = JStr []"
    by (rule grade_caliper_type)
  show "''type'' \<notin> keys_of (js_get (feedback_descriptor E config statement) ''CALIPER'')"
    by (simp add: feedback_caliper_keys)
  show "\<not> has_field (js_get (feedback_descriptor E config statement) ''CALIPER'') ''type''"
    by (simp add: has_field_def feedback_descriptor_def)
  show "js_get (js_get (grade_descriptor E config statement) ''CALIPER'') ''type'' \<noteq> JTerm t"
    for t by (simp add: grade_caliper_type)
  show "js_get (js_get (feedback_descriptor E config statement) ''CALIPER'') ''type'' \<noteq> JTerm t"
    for t by (simp add: feedback_descriptor_def)
  show "js_get (structured_of (grade E config statement)) ''type'' = JStr []"
    if "validate E config statement grade_rules = None"
    by (simp add: payloads_of_dispatch[OF dispatched_grade[OF that]] structured_payload_type
          grade_caliper_type absent_def)
  show "js_get (structured_of (feedback E config statement)) ''type'' = Undefined"
    if "validate E config statement feedback_rules = None"
    by (simp add: payloads_of_dispatch[OF dispatched_feedback[OF that]] structured_payload_type
          feedback_descriptor_def)
qed

lemma acme_feedback_valid:
  "validate acme_env acme_config feedback_given feedback_rules = None"
proof -
  have "\<forall>r \<in> set feedback_rules. field_ok acme_env (metadata feedback_given) r"
    by (simp add: feedback_rules_def field_ok_def feedback_given_def is_missing_def
          acme_env_def)
  then show ?thesis
    by (simp only: validate_def validate_fields_None)
qed

theorem blank_structured_event_type_witness:
  "js_get (structured_of (grade acme_env acme_config graded_45_of_50)) ''type'' = JStr []
   \<and> js_get (structured_of (feedback acme_env acme_config feedback_given)) ''type'' = Undefined
   \<and> ''type'' \<notin> keys_of (js_get (feedback_descriptor acme_env acme_config feedback_given)
                            ''CALIPER'')"
  using blank_structured_event_type [of acme_env acme_config graded_45_of_50]
        blank_structured_event_type [of acme_env acme_config feedback_given]
        acme_graded_valid acme_feedback_valid
  by blast

subsection \<open>Identifiers in the payloads\<close>

lemma create_flat_id:
  "validate E config statement create_rules = None \<Longrightarrow>
     js_get (flat_of (create E config statement)) ''id''
       = generateUuid E (platform config) (JTerm VERBS_CREATED) [md statement ''id'']"
  by (simp add: payloads_of_dispatch[OF dispatched_create] flat_payload_id
        create_descriptor_def uuid_parts_def)

lemma view_flat_id:
  "validate E config statement view_rules = None \<Longrightarrow>
     js_get (flat_of (view E config statement)) ''id''
       = generateUuid E (platform config) (JTerm VERBS_VIEWED)
           [timestamp statement, md statement ''assignment'', getUserId (actor statement)]"
  by (simp add: payloads_of_dispatch[OF dispatched_view] flat_payload_id
        view_descriptor_def uuid_parts_def)

lemma view_flat_object:
  "validate E config statement view_rules = None \<Longrightarrow>
     js_get (flat_of (view E config statement)) ''object''
       = generateUuid E (platform config) (JTerm VERBS_CREATED) [md statement ''assignment'']"
  by (simp add: payloads_of_dispatch[OF dispatched_view] flat_payload_object
        view_descriptor_def)

lemma submit_flat_id:
  "validate E config statement submit_rules = None \<Longrightarrow>
     js_get (flat_of (submit E config statement)) ''id''
       = generateUuid E (platform config) (JTerm VERBS_SUBMITTED) [md statement ''id'']"
  by (simp add: payloads_of_dispatch[OF dispatched_submit] flat_payload_id
        submit_descriptor_def uuid_parts_def)

lemma submit_flat_object:
  "validate E config statement submit_rules = None \<Longrightarrow>
     js_get (flat_of (submit E config statement)) ''object''
       = generateUuid E (platform config) (JTerm VERBS_CREATED) [md statement ''assignment'']"
  by (simp add: payloads_of_dispatch[OF dispatched_submit] flat_payload_object
        submit_descriptor_def)

lemma grade_flat_object:
  "validate E config statement grade_rules = None \<Longrightarrow>
     js_get (flat_of (grade E config statement)) ''object''
       = generateUuid E (platform config) (JTerm VERBS_SUBMITTED) [md statement ''id'']"
  by (simp add: payloads_of_dispatch[OF dispatched_grade] flat_payload_object
        grade_descriptor_def)

lemma feedback_flat_object:
  "validate E config statement feedback_rules = None \<Longrightarrow>
     js_get (flat_of (feedback E config statement)) ''object''
       = generateUuid E (platform config) (JTerm VERBS_SUBMITTED) [md statement ''submission'']"
  by (simp add: payloads_of_dispatch[OF dispatched_feedback] flat_payload_object
        feedback_descriptor_def)

subsection \<open>Identifier derivation\<close>

lemma derivations_create:
  "validate E config statement create_rules = None \<Longrightarrow>
     derivations (create E config statement)
       = [(platform config, JTerm VERBS_CREATED, [md statement ''id''])]"
  by (simp add: create_def derivations_processStatement create_descriptor_def uuid_parts_def)

lemma derivations_view:
  "validate E config statement view_rules = None \<Longrightarrow>
     derivations (view E config statement)
       = [(platform config, JTerm VERBS_CREATED, [md statement ''assignment'']),
          (platform config, JTerm VERBS_VIEWED,
           [timestamp statement, md statement ''assignment'', getUserId (actor statement)])]"
  by (simp add: view_def derivations_processStatement view_descriptor_def uuid_parts_def)

lemma view_validation_reads_assignment:
  "md statement' ''assignment'' = md statement ''assignment'' \<Longrightarrow>
     validate E config' statement' view_rules = validate E config statement view_rules"
proof -
  assume "md statement' ''assignment'' = md statement ''assignment''"
  then have "\<forall>r \<in> set view_rules. md statement' (fst r) = md statement (fst r)"
    by (simp add: view_rules_def)
  then have "validate_fields E (metadata statement') view_rules
      = validate_fields E (metadata statement) view_rules"
    by (rule validate_fields_cong)
  then show ?thesis by (simp add: validate_def)
qed

lemma acme_created_again_valid:
  "validate acme_env acme_config essay_created_again create_rules = None"
proof -
  have "\<forall>r \<in> set create_rules. field_ok acme_env (metadata essay_created_again) r"
    by (simp add: create_rules_def field_ok_def essay_created_again_def is_missing_def
          acme_env_def)
  then show ?thesis
    by (simp only: validate_def validate_fields_None)
qed

lemma acme_viewed_valid:
  "validate acme_env acme_config essay_viewed view_rules = None"
proof -
  have "\<forall>r \<in> set view_rules. field_ok acme_env (metadata essay_viewed) r"
    by (simp add: view_rules_def field_ok_def essay_viewed_def is_missing_def acme_env_def)
  then show ?thesis
    by (simp only: validate_def validate_fields_None)
qed

lemma acme_submitted_valid:
  "validate acme_env acme_config essay_submitted submit_rules = None"
proof -
  have "\<forall>r \<in> set submit_rules. field_ok acme_env (metadata essay_submitted) r"
    by (simp add: submit_rules_def field_ok_def essay_submitted_def is_missing_def acme_env_def)
  then show ?thesis
    by (simp only: validate_def validate_fields_None)
qed

text \<open>
  C2. The identifier deriver is a function of its arguments, and \<open>create\<close> calls it
  with \<open>config.platform\<close>, the verb CREATED and the one part \<open>statement.metadata.id\<close>.
  Two calls of \<open>create\<close> that pass validation with the same config and the same
  \<open>statement.metadata.id\<close>, whatever else differs, make the same call of the
  deriver, put the same derived identifier in the flat-format envelope and the same
  caller-supplied identifier on the object entity of the structured-format payload.
\<close>

theorem create_identifiers_idempotent:
  "validate E config statement create_rules = None \<Longrightarrow>
   validate E config statement' create_rules = None \<Longrightarrow>
   md statement ''id'' = md statement' ''id'' \<Longrightarrow>
     derivations (create E config statement) = derivations (create E config statement')
     \<and> js_get (flat_of (create E config statement)) ''id''
         = js_get (flat_of (create E config statement')) ''id''
     \<and> js_get (flat_of (create E config statement)) ''id''
         = generateUuid E (platform config) (JTerm VERBS_CREATED) [md statement ''id'']
     \<and> js_get (js_get (structured_of (create E config statement)) ''object'') ''id''
         = js_get (js_get (structured_of (create E config statement')) ''object'') ''id''
     \<and> js_get (js_get (structured_of (create E config statement)) ''object'') ''id''
         = md statement ''id''"
  by (simp add: derivations_create create_flat_id create_structured_object_id)

theorem create_identifiers_idempotent_witness:
  "metadata essay_created \<noteq> metadata essay_created_again
   \<and> js_get (flat_of (create acme_env acme_config essay_created)) ''id''
       = js_get (flat_of (create acme_env acme_config essay_created_again)) ''id''
   \<and> js_get (js_get (structured_of (create acme_env acme_config essay_created)) ''object'') ''id''
       = js_get (js_get (structured_of (create acme_env acme_config essay_created_again))
           ''object'') ''id''
   \<and> js_get (js_get (structured_of (create acme_env acme_config essay_created)) ''object'') ''id''
       = JStr ''https://x/a1''"
proof -
  have same: "md essay_created ''id'' = md essay_created_again ''id''"
    by (simp add: essay_created_def essay_created_again_def)
  have differ: "metadata essay_created \<noteq> metadata essay_created_again"
    by (simp add: essay_created_def essay_created_again_def)
  have here: "md essay_created ''id'' = JStr ''https://x/a1''"
    by (simp add: essay_created_def)
  note t = create_identifiers_idempotent[OF acme_essay_valid acme_created_again_valid same]
  from t have "js_get (flat_of (create acme_env acme_config essay_created)) ''id''
       = js_get (flat_of (create acme_env acme_config essay_created_again)) ''id''"
    by (rule conjunct1[OF conjunct2])
  moreover from t
  have "js_get (js_get (structured_of (create acme_env acme_config essay_created)) ''object'') ''id''
       = js_get (js_get (structured_of (create acme_env acme_config essay_created_again))
           ''object'') ''id''"
    by blast
  moreover from t
  have "js_get (js_get (structured_of (create acme_env acme_config essay_created)) ''object'') ''id''
       = md essay_created ''id''"
    by blast
  then
  have "js_get (js_get (structured_of (create acme_env acme_config essay_created)) ''object'') ''id''
       = JStr ''https://x/a1''"
    using here by (rule trans)
  ultimately show ?thesis using differ by blast
qed

text \<open>
  C5. For \<open>view\<close> the part list of the flat-format template is the sequence of the
  event timestamp, the assignment URI and the user identifier of the actor; it is what
  the identifier deriver is called with for the statement identifier (after the call
  that derives the object from the assignment URI), with \<open>config.platform\<close> and the
  verb VIEWED. Hence two \<open>view\<close> calls with the same config that agree on the
  timestamp, on \<open>metadata.assignment\<close> and on the actor carry the same flat-format
  identifier.
\<close>

theorem view_identifier_parts:
  "validate E config statement view_rules = None \<Longrightarrow>
     js_get (js_get (view_descriptor E config statement) ''XAPI'') ''uuid''
       = JArr [timestamp statement, md statement ''assignment'', getUserId (actor statement)]
     \<and> derivations (view E config statement)
         = [(platform config, JTerm VERBS_CREATED, [md statement ''assignment'']),
            (platform config, JTerm VERBS_VIEWED,
             [timestamp statement, md statement ''assignment'', getUserId (actor statement)])]
     \<and> js_get (flat_of (view E config statement)) ''id''
         = generateUuid E (platform config) (JTerm VERBS_VIEWED)
             [timestamp statement, md statement ''assignment'', getUserId (actor statement)]
     \<and> (\<forall>statement'.
           timestamp statement' = timestamp statement
           \<and> md statement' ''assignment'' = md statement ''assignment''
           \<and> actor statement' = actor statement \<longrightarrow>
             validate E config statement' view_rules = None
             \<and> js_get (flat_of (view E config statement')) ''id''
                 = js_get (flat_of (view E config statement)) ''id'')"
proof (intro conjI allI impI)
  assume v: "validate E config statement view_rules = None"
  show "js_get (js_get (view_descriptor E config statement) ''XAPI'') ''uuid''
       = JArr [timestamp statement, md statement ''assignment'', getUserId (actor statement)]"
    by (simp add: view_descriptor_def)
  show "derivations (view E config statement)
         = [(platform config, JTerm VERBS_CREATED, [md statement ''assignment'']),
            (platform config, JTerm VERBS_VIEWED,
             [timestamp statement, md statement ''assignment'', getUserId (actor statement)])]"
    using v by (rule derivations_view)
  show "js_get (flat_of (view E config statement)) ''id''
         = generateUuid E (platform config) (JTerm VERBS_VIEWED)
             [timestamp statement, md statement ''assignment'', getUserId (actor statement)]"
    using v by (rule view_flat_id)
  fix statement'
  assume same: "timestamp statement' = timestamp statement
           \<and> md statement' ''assignment'' = md statement ''assignment''
           \<and> actor statement' = actor statement"
  then have "validate E config statement' view_rules = validate E config statement view_rules"
    by (simp add: view_validation_reads_assignment)
  with v show v': "validate E config statement' view_rules = None"
    by simp
  show "js_get (flat_of (view E config statement')) ''id''
                 = js_get (flat_of (view E config statement)) ''id''"
    by (simp add: view_flat_id[OF v] view_flat_id[OF v'] same)
qed

theorem view_identifier_parts_witness:
  "derivations (view acme_env acme_config essay_viewed)
     = [(JStr ''acme'', JTerm VERBS_CREATED, [JStr ''https://x/a1'']),
        (JStr ''acme'', JTerm VERBS_VIEWED, [JDate 0, JStr ''https://x/a1'', JStr ''u1''])]
   \<and> metadata essay_viewed_again \<noteq> metadata essay_viewed
   \<and> js_get (flat_of (view acme_env acme_config essay_viewed_again)) ''id''
       = js_get (flat_of (view acme_env acme_config essay_viewed)) ''id''"
proof -
  have same: "timestamp essay_viewed_again = timestamp essay_viewed
           \<and> md essay_viewed_again ''assignment'' = md essay_viewed ''assignment''
           \<and> actor essay_viewed_again = actor essay_viewed"
    by (simp add: essay_viewed_again_def essay_viewed_def)
  have differ: "metadata essay_viewed_again \<noteq> metadata essay_viewed"
    by (simp add: essay_viewed_again_def essay_viewed_def)
  have parts: "platform acme_config = JStr ''acme''" "timestamp essay_viewed = JDate 0"
      "md essay_viewed ''assignment'' = JStr ''https://x/a1''"
      "getUserId (actor essay_viewed) = JStr ''u1''"
    by (simp_all add: acme_config_def essay_viewed_def getUserId_def)
  from view_identifier_parts[OF acme_viewed_valid] same
  have "derivations (view acme_env acme_config essay_viewed)
         = [(platform acme_config, JTerm VERBS_CREATED, [md essay_viewed ''assignment'']),
            (platform acme_config, JTerm VERBS_VIEWED,
             [timestamp essay_viewed, md essay_viewed ''assignment'',
              getUserId (actor essay_viewed)])]"
    and "js_get (flat_of (view acme_env acme_config essay_viewed_again)) ''id''
       = js_get (flat_of (view acme_env acme_config essay_viewed)) ''id''"
    by blast+
  with differ parts show ?thesis by simp
qed

text \<open>
  C10. Cross-statement linkage of the flat-format identifiers. When the builders pass
  validation under one config: the object of \<open>view\<close> and the object of \<open>submit\<close> for
  the assignment URI \<open>u\<close> are the identifier derived from \<open>config.platform\<close>, the verb
  CREATED and the part list \<open>[u]\<close>, which is the statement identifier of \<open>create\<close>
  for \<open>metadata.id = u\<close>; the object of \<open>grade\<close> (for its \<open>metadata.id\<close>) and the
  object of \<open>feedback\<close> (for its \<open>metadata.submission\<close>) are the identifier derived
  with the verb SUBMITTED, which is the statement identifier of \<open>submit\<close> for the
  submission referred to.
\<close>

theorem cross_statement_linkage:
  "validate E config created create_rules = None \<Longrightarrow>
   validate E config viewed view_rules = None \<Longrightarrow>
   validate E config submitted submit_rules = None \<Longrightarrow>
   validate E config graded grade_rules = None \<Longrightarrow>
   validate E config commented feedback_rules = None \<Longrightarrow>
     js_get (flat_of (view E config viewed)) ''object''
       = generateUuid E (platform config) (JTerm VERBS_CREATED) [md viewed ''assignment'']
     \<and> js_get (flat_of (submit E config submitted)) ''object''
         = generateUuid E (platform config) (JTerm VERBS_CREATED) [md submitted ''assignment'']
     \<and> js_get (flat_of (create E config created)) ''id''
         = generateUuid E (platform config) (JTerm VERBS_CREATED) [md created ''id'']
     \<and> (md viewed ''assignment'' = md created ''id'' \<longrightarrow>
           js_get (flat_of (view E config viewed)) ''object''
             = js_get (flat_of (create E config created)) ''id'')
     \<and> (md submitted ''assignment'' = md created ''id'' \<longrightarrow>
           js_get (flat_of (submit E config submitted)) ''object''
             = js_get (flat_of (create E config created)) ''id'')
     \<and> js_get (flat_of (grade E config graded)) ''object''
         = generateUuid E (platform config) (JTerm VERBS_SUBMITTED) [md graded ''id'']
     \<and> js_get (flat_of (feedback E config commented)) ''object''
         = generateUuid E (platform config) (JTerm VERBS_SUBMITTED) [md commented ''submission'']
     \<and> js_get (flat_of (submit E config submitted)) ''id''
         = generateUuid E (platform config) (JTerm VERBS_SUBMITTED) [md submitted ''id'']
     \<and> (md graded ''id'' = md submitted ''id'' \<longrightarrow>
           js_get (flat_of (grade E config graded)) ''object''
             = js_get (flat_of (submit E config submitted)) ''id'')
     \<and> (md commented ''submission'' = md submitted ''id'' \<longrightarrow>
           js_get (flat_of (feedback E config commented)) ''object''
             = js_get (flat_of (submit E config submitted)) ''id'')"
  by (simp add: create_flat_id view_flat_object submit_flat_id submit_flat_object
        grade_flat_object feedback_flat_object)

theorem cross_statement_linkage_witness:
  "js_get (flat_of (view acme_env acme_config essay_viewed)) ''object''
     = js_get (flat_of (create acme_env acme_config essay_created)) ''id''
   \<and> js_get (flat_of (submit acme_env acme_config essay_submitted)) ''object''
       = js_get (flat_of (create acme_env acme_config essay_created)) ''id''
   \<and> js_get (flat_of (grade acme_env acme_config graded_45_of_50)) ''object''
       = js_get (flat_of (submit acme_env acme_config essay_submitted)) ''id''
   \<and> js_get (flat_of (feedback acme_env acme_config feedback_given)) ''object''
       = js_get (flat_of (submit acme_env acme_config essay_submitted)) ''id''"
proof -
  have links: "md essay_viewed ''assignment'' = md essay_created ''id''"
      "md essay_submitted ''assignment'' = md essay_created ''id''"
      "md graded_45_of_50 ''id'' = md essay_submitted ''id''"
      "md feedback_given ''submission'' = md essay_submitted ''id''"
    by (simp_all add: essay_viewed_def essay_created_def essay_submitted_def
          graded_45_of_50_def feedback_given_def)
  from cross_statement_linkage[OF acme_essay_valid acme_viewed_valid acme_submitted_valid
      acme_graded_valid acme_feedback_valid] links
  show ?thesis by blast
qed

subsection \<open>The callback and the trace of a call\<close>

lemma processStatement_shape:
  "processStatement E config statement opts
     = [Derive (platform config) (js_get opts ''verb'')
          (uuid_parts (js_get (js_get opts ''XAPI'') ''uuid'')), RenderPerson]
       @ [Send (flat_payload E config statement opts) (structured_payload E config statement opts),
          Callback (case transport_send E (flat_payload E config statement opts)
                           (structured_payload E config statement opts) of
                      Inl err \<Rightarrow> Failure (TransportError err)
                    | Inr result \<Rightarrow> Success result)]"
  by (simp add: processStatement_def Let_def)

lemma run_success:
  assumes "validate E config statement (rules_of op) = None"
  shows "\<exists>pre opts. run op E config statement = pre @ processStatement E config statement opts
           \<and> callbacks pre = [] \<and> dispatched pre = []"
proof (cases op)
  case Create
  with assms have "run op E config statement
      = [RenderEntity] @ processStatement E config statement (create_descriptor statement)
      \<and> callbacks [RenderEntity] = [] \<and> dispatched [RenderEntity] = []"
    by (simp add: create_def)
  then show ?thesis by blast
next
  case View
  let ?pre = "[Derive (platform config) (JTerm VERBS_CREATED) [md statement ''assignment''],
               RenderEntity]"
  from View assms have "run op E config statement
      = ?pre @ processStatement E config statement (view_descriptor E config statement)
      \<and> callbacks ?pre = [] \<and> dispatched ?pre = []"
    by (simp add: view_def)
  then show ?thesis by blast
next
  case Submit
  let ?pre = "[Derive (platform config) (JTerm VERBS_CREATED) [md statement ''assignment''],
               RenderEntity, RenderPerson, RenderEntity]"
  from Submit assms have "run op E config statement
      = ?pre @ processStatement E config statement (submit_descriptor E config statement)
      \<and> callbacks ?pre = [] \<and> dispatched ?pre = []"
    by (simp add: submit_def)
  then show ?thesis by blast
next
  case Grade
  let ?pre = "[Derive (platform config) (JTerm VERBS_SUBMITTED) [md statement ''id''],
               RenderEntity, RenderPerson, RenderEntity]"
  from Grade assms have "run op E config statement
      = ?pre @ processStatement E config statement (grade_descriptor E config statement)
      \<and> callbacks ?pre = [] \<and> dispatched ?pre = []"
    by (simp add: grade_def)
  then show ?thesis by blast
next
  case Feedback
  let ?pre = "[Derive (platform config) (JTerm VERBS_SUBMITTED) [md statement ''submission''],
               RenderEntity, RenderEntity]"
  from Feedback assms have "run op E config statement
      = ?pre @ processStatement E config statement (feedback_descriptor E config statement)
      \<and> callbacks ?pre = [] \<and> dispatched ?pre = []"
    by (simp add: feedback_def)
  then show ?thesis by blast
qed

lemma callbacks_append: "callbacks (xs @ ys) = callbacks xs @ callbacks ys"
  by (induction xs rule: callbacks.induct) simp_all

lemma dispatched_append: "dispatched (xs @ ys) = dispatched xs @ dispatched ys"
  by (induction xs rule: dispatched.induct) simp_all

lemma run_success_trace:
  assumes "validate E config statement (rules_of op) = None"
  shows "\<exists>pre flat structured.
           run op E config statement
             = pre @ [Send flat structured,
                      Callback (case transport_send E flat structured of
                                  Inl err \<Rightarrow> Failure (TransportError err)
                                | Inr result \<Rightarrow> Success result)]
           \<and> callbacks pre = [] \<and> dispatched pre = []"
proof -
  from run_success[OF assms] obtain pre opts where
    r: "run op E config statement = pre @ processStatement E config statement opts"
    and p: "callbacks pre = []" "dispatched pre = []"
    by blast
  let ?pre = "pre @ [Derive (platform config) (js_get opts ''verb'')
          (uuid_parts (js_get (js_get opts ''XAPI'') ''uuid'')), RenderPerson]"
  let ?flat = "flat_payload E config statement opts"
  let ?structured = "structured_payload E config statement opts"
  have "run op E config statement
      = ?pre @ [Send ?flat ?structured,
                Callback (case transport_send E ?flat ?structured of
                            Inl err \<Rightarrow> Failure (TransportError err)
                          | Inr result \<Rightarrow> Success result)]"
    by (simp add: r processStatement_shape)
  moreover have "callbacks ?pre = []" "dispatched ?pre = []"
    by (simp_all add: callbacks_append dispatched_append p)
  ultimately show ?thesis by blast
qed

lemma validate_error_names_rule:
  assumes "validate E config statement rs = Some e"
  shows "\<exists>name ty req. (name, ty, req) \<in> set rs
           \<and> \<not> field_ok E (metadata statement) (name, ty, req)
           \<and> e = (if req \<and> is_missing (md statement name)
                   then ValidationError name Missing
                   else ValidationError name (WrongType ty))"
proof -
  from assms have "validate_fields E (metadata statement) rs = Some e"
    by (simp add: validate_def)
  from validate_fields_first[OF this] obtain pre r post where
    h: "rs = pre @ r # post" "\<not> field_ok E (metadata statement) r"
       "check_field E (metadata statement) r = Some e"
    by blast
  obtain name ty req where r: "r = (name, ty, req)"
    by (cases r)
  from h(3) have "e = (if req \<and> is_missing (md statement name)
                    then ValidationError name Missing
                    else ValidationError name (WrongType ty))"
    unfolding r by (rule check_field_error)
  moreover from h(1) have "(name, ty, req) \<in> set rs"
    by (simp add: r)
  ultimately show ?thesis using h(2) r by blast
qed

lemma submit_without_assignment:
  assumes a: "md statement ''assignment'' = Undefined"
    and i: "field_ok E (metadata statement) (''id'', TUri, True)"
  shows "validate E config statement submit_rules = Some (ValidationError ''assignment'' Missing)"
proof -
  from i have "check_field E (metadata statement) (''id'', TUri, True) = None"
    by (simp add: check_field_ok)
  moreover have "check_field E (metadata statement) (''assignment'', TUri, True)
      = Some (ValidationError ''assignment'' Missing)"
    by (rule check_field_missing) (simp add: a is_missing_def)
  ultimately show ?thesis
    by (simp add: validate_def submit_rules_def)
qed

subsection \<open>Validation failures and the fields of create\<close>

lemma acme_offline_feedback_valid:
  "validate offline_env acme_config feedback_given feedback_rules = None"
proof -
  have "\<forall>r \<in> set feedback_rules. field_ok offline_env (metadata feedback_given) r"
    by (simp add: feedback_rules_def field_ok_def feedback_given_def is_missing_def
          offline_env_def acme_env_def)
  then show ?thesis
    by (simp only: validate_def validate_fields_None)
qed

lemma acme_submission_id_ok:
  "field_ok acme_env (metadata submitted_without_assignment) (''id'', TUri, True)"
  by (simp add: field_ok_def submitted_without_assignment_def is_missing_def acme_env_def)

lemma acme_submission_no_assignment:
  "md submitted_without_assignment ''assignment'' = Undefined"
  by (simp add: submitted_without_assignment_def)

text \<open>
  C4. For each of the five operations, when validation fails the
  whole call is one invocation of the callback with the validation error: no call of
  the identifier deriver, no rendering, no dispatch to the transport collaborator. The
  error is that of a field declared in the operation's rule set which is not in order;
  it names the field and the reason (missing, or wrong type with the expected type).
  In particular \<open>submit\<close> with a valid \<open>metadata.id\<close> and \<open>metadata.assignment\<close>
  absent reports the field \<open>assignment\<close> as missing.
\<close>

theorem validation_failure_short_circuits:
  "(validate E config statement (rules_of op) = Some e \<longrightarrow>
      run op E config statement = [Callback (Failure e)]
      \<and> callbacks (run op E config statement) = [Failure e]
      \<and> derivations (run op E config statement) = []
      \<and> renderings (run op E config statement) = 0
      \<and> dispatched (run op E config statement) = []
      \<and> (\<exists>name ty req.
            (name, ty, req) \<in> set (rules_of op)
            \<and> \<not> field_ok E (metadata statement) (name, ty, req)
            \<and> e = (if req \<and> is_missing (md statement name)
                    then ValidationError name Missing
                    else ValidationError name (WrongType ty))))
   \<and> (md statement ''assignment'' = Undefined
        \<and> field_ok E (metadata statement) (''id'', TUri, True) \<longrightarrow>
          run Submit E config statement
            = [Callback (Failure (ValidationError ''assignment'' Missing))])"
proof (intro conjI impI)
  assume v: "validate E config statement (rules_of op) = Some e"
  show r: "run op E config statement = [Callback (Failure e)]"
    using v by (rule run_failure)
  show "callbacks (run op E config statement) = [Failure e]"
    by (simp add: r)
  show "derivations (run op E config statement) = []"
    by (simp add: r)
  show "renderings (run op E config statement) = 0"
    by (simp add: r)
  show "dispatched (run op E config statement) = []"
    by (simp add: r)
  show "\<exists>name ty req.
            (name, ty, req) \<in> set (rules_of op)
            \<and> \<not> field_ok E (metadata statement) (name, ty, req)
            \<and> e = (if req \<and> is_missing (md statement name)
                    then ValidationError name Missing
                    else ValidationError name (WrongType ty))"
    using v by (rule validate_error_names_rule)
next
  assume "md statement ''assignment'' = Undefined
        \<and> field_ok E (metadata statement) (''id'', TUri, True)"
  then have "validate E config statement (rules_of Submit)
      = Some (ValidationError ''assignment'' Missing)"
    by (simp add: submit_without_assignment)
  then show "run Submit E config statement
            = [Callback (Failure (ValidationError ''assignment'' Missing))]"
    by (rule run_failure)
qed

theorem validation_failure_short_circuits_witness:
  "run Submit acme_env acme_config submitted_without_assignment
     = [Callback (Failure (ValidationError ''assignment'' Missing))]
   \<and> run Submit acme_env acme_config submitted_without_anything
       = [Callback (Failure (ValidationError ''id'' Missing))]
   \<and> dispatched (run Submit acme_env acme_config submitted_without_anything) = []"
  using validation_failure_short_circuits
          [of acme_env acme_config submitted_without_assignment Submit]
        validation_failure_short_circuits
          [of acme_env acme_config submitted_without_anything Submit
              "ValidationError ''id'' Missing"]
        acme_submission_id_ok acme_submission_no_assignment acme_submit_nothing
  by simp

lemma create_rules_ok:
  "(\<forall>r \<in> set create_rules. field_ok E m r) \<longleftrightarrow>
     (\<not> is_missing (obj_get m ''id'') \<and> conforms E TUri (obj_get m ''id''))
     \<and> (\<not> is_missing (obj_get m ''title'') \<and> conforms E TString (obj_get m ''title''))
     \<and> (obj_get m ''description'' \<noteq> Undefined \<longrightarrow> conforms E TString (obj_get m ''description''))
     \<and> (obj_get m ''due_at'' \<noteq> Undefined \<longrightarrow> conforms E TDate (obj_get m ''due_at''))
     \<and> (obj_get m ''max_points'' \<noteq> Undefined \<longrightarrow> conforms E TNumber (obj_get m ''max_points''))
     \<and> (obj_get m ''submission_types'' \<noteq> Undefined
          \<longrightarrow> conforms E TArray (obj_get m ''submission_types''))"
  unfolding create_rules_def field_ok_def by (simp only: list.set ball_simps prod.case) blast

lemma create_proceeds:
  "dispatched (create E config statement) \<noteq> [] \<longleftrightarrow>
     validate E config statement create_rules = None"
proof (cases "validate E config statement create_rules")
  case None
  then show ?thesis by (simp add: dispatched_create)
next
  case (Some e)
  then show ?thesis by (simp add: create_def)
qed

text \<open>
  C7. \<open>create\<close> validates the fields \<open>id\<close> (uri, required), \<open>title\<close> (string,
  required), \<open>description\<close> (string), \<open>due_at\<close> (date), \<open>max_points\<close> (number) and
  \<open>submission_types\<close> (array), the last four optional. It gets past validation, to
  the dispatch of the statement, exactly when \<open>id\<close> and \<open>title\<close> are present (not
  absent, null or the empty string) with their types and every optional field that is
  supplied has its declared type. No other field of the metadata is looked at: two
  events that agree on these six fields are validated alike.
\<close>

theorem create_validated_fields:
  "rules_of Create = [
      (''id'', TUri, True),
      (''title'', TString, True),
      (''description'', TString, False),
      (''due_at'', TDate, False),
      (''max_points'', TNumber, False),
      (''submission_types'', TArray, False)]
   \<and> ((dispatched (create E config statement) \<noteq> []) \<longleftrightarrow>
        validate E config statement create_rules = None)
   \<and> (validate E config statement create_rules = None \<longleftrightarrow>
        (\<not> is_missing (md statement ''id'') \<and> conforms E TUri (md statement ''id''))
        \<and> (\<not> is_missing (md statement ''title'') \<and> conforms E TString (md statement ''title''))
        \<and> (md statement ''description'' \<noteq> Undefined
             \<longrightarrow> conforms E TString (md statement ''description''))
        \<and> (md statement ''due_at'' \<noteq> Undefined
             \<longrightarrow> conforms E TDate (md statement ''due_at''))
        \<and> (md statement ''max_points'' \<noteq> Undefined
             \<longrightarrow> conforms E TNumber (md statement ''max_points''))
        \<and> (md statement ''submission_types'' \<noteq> Undefined
             \<longrightarrow> conforms E TArray (md statement ''submission_types'')))
   \<and> ((\<forall>k \<in> {''id'', ''title'', ''description'', ''due_at'', ''max_points'',
               ''submission_types''}. md statement' k = md statement k)
        \<longrightarrow> validate E config' statement' create_rules
              = validate E config statement create_rules)"
proof (intro conjI impI)
  show "rules_of Create = [
      (''id'', TUri, True),
      (''title'', TString, True),
      (''description'', TString, False),
      (''due_at'', TDate, False),
      (''max_points'', TNumber, False),
      (''submission_types'', TArray, False)]"
    by (simp add: create_rules_def)
  show "(dispatched (create E config statement) \<noteq> []) \<longleftrightarrow>
        validate E config statement create_rules = None"
    by (rule create_proceeds)
  show "validate E config statement create_rules = None \<longleftrightarrow>
        (\<not> is_missing (md statement ''id'') \<and> conforms E TUri (md statement ''id''))
        \<and> (\<not> is_missing (md statement ''title'') \<and> conforms E TString (md statement ''title''))
        \<and> (md statement ''description'' \<noteq> Undefined
             \<longrightarrow> conforms E TString (md statement ''description''))
        \<and> (md statement ''due_at'' \<noteq> Undefined
             \<longrightarrow> conforms E TDate (md statement ''due_at''))
        \<and> (md statement ''max_points'' \<noteq> Undefined
             \<longrightarrow> conforms E TNumber (md statement ''max_points''))
        \<and> (md statement ''submission_types'' \<noteq> Undefined
             \<longrightarrow> conforms E TArray (md statement ''submission_types''))"
    by (simp only: validate_def validate_fields_None create_rules_ok)
next
  assume "\<forall>k \<in> {''id'', ''title'', ''description'', ''due_at'', ''max_points'',
               ''submission_types''}. md statement' k = md statement k"
  then have "\<forall>r \<in> set create_rules. md statement' (fst r) = md statement (fst r)"
    by (simp add: create_rules_def)
  then have "validate_fields E (metadata statement') create_rules
      = validate_fields E (metadata statement) create_rules"
    by (rule validate_fields_cong)
  then show "validate E config' statement' create_rules
              = validate E config statement create_rules"
    by (simp add: validate_def)
qed

theorem create_validated_fields_witness:
  "dispatched (create acme_env acme_config essay_created) \<noteq> []
   \<and> validate acme_env acme_config essay_created create_rules = None
   \<and> conforms acme_env TUri (md essay_created ''id'')
   \<and> dispatched (create acme_env acme_config submitted_without_anything) = []"
proof -
  have "is_missing (md submitted_without_anything ''id'')"
    by (simp add: submitted_without_anything_def is_missing_def)
  with create_validated_fields [of acme_env acme_config essay_created]
       create_validated_fields [of acme_env acme_config submitted_without_anything]
       acme_essay_valid
  show ?thesis by blast
qed

subsection \<open>Exactly one callback\<close>

text \<open>
  C8. For every operation and every event, a call invokes the callback exactly once.
  When validation fails the call is that one invocation, with the validation error,
  and nothing is dispatched. When validation passes, the call ends with one dispatch
  of the two payloads to the transport collaborator followed by one invocation of
  the callback, and nothing before them is a dispatch or a callback; the callback gets
  the transport's error when the transport fails and \<open>(null, result)\<close> with the
  transport's result when it succeeds.
\<close>

theorem callback_exactly_once:
  "(\<exists>out. callbacks (run op E config statement) = [out])
   \<and> (\<forall>e. validate E config statement (rules_of op) = Some e \<longrightarrow>
          run op E config statement = [Callback (Failure e)])
   \<and> (validate E config statement (rules_of op) = None \<longrightarrow>
        (\<exists>pre flat structured.
           run op E config statement
             = pre @ [Send flat structured,
                      Callback (case transport_send E flat structured of
                                  Inl err \<Rightarrow> Failure (TransportError err)
                                | Inr result \<Rightarrow> Success result)]
           \<and> callbacks pre = [] \<and> dispatched pre = []
           \<and> dispatched (run op E config statement) = [(flat, structured)]
           \<and> (\<forall>err. transport_send E flat structured = Inl err \<longrightarrow>
                 callbacks (run op E config statement) = [Failure (TransportError err)])
           \<and> (\<forall>result. transport_send E flat structured = Inr result \<longrightarrow>
                 callbacks (run op E config statement) = [Success result])))"
proof (intro conjI allI impI)
  show "\<exists>out. callbacks (run op E config statement) = [out]"
  proof (cases "validate E config statement (rules_of op)")
    case None
    from run_success_trace[OF None] obtain pre flat structured where
      "run op E config statement
             = pre @ [Send flat structured,
                      Callback (case transport_send E flat structured of
                                  Inl err \<Rightarrow> Failure (TransportError err)
                                | Inr result \<Rightarrow> Success result)]"
      "callbacks pre = []"
      by blast
    then show ?thesis by (simp add: callbacks_append)
  next
    case (Some e)
    then show ?thesis by (simp add: run_failure)
  qed
next
  fix e
  assume "validate E config statement (rules_of op) = Some e"
  then show "run op E config statement = [Callback (Failure e)]"
    by (rule run_failure)
next
  assume v: "validate E config statement (rules_of op) = None"
  from run_success_trace[OF v] obtain pre flat structured where
    r: "run op E config statement
             = pre @ [Send flat structured,
                      Callback (case transport_send E flat structured of
                                  Inl err \<Rightarrow> Failure (TransportError err)
                                | Inr result \<Rightarrow> Success result)]"
    and p: "callbacks pre = []" "dispatched pre = []"
    by blast
  have d: "dispatched (run op E config statement) = [(flat, structured)]"
    by (simp add: r dispatched_append p)
  have c: "callbacks (run op E config statement)
      = [case transport_send E flat structured of
           Inl err \<Rightarrow> Failure (TransportError err)
         | Inr result \<Rightarrow> Success result]"
    by (simp add: r callbacks_append p)
  have "\<forall>err. transport_send E flat structured = Inl err \<longrightarrow>
                 callbacks (run op E config statement) = [Failure (TransportError err)]"
    by (simp add: c)
  moreover
  have "\<forall>result. transport_send E flat structured = Inr result \<longrightarrow>
                 callbacks (run op E config statement) = [Success result]"
    by (simp add: c)
  ultimately
  show "\<exists>pre flat structured.
           run op E config statement
             = pre @ [Send flat structured,
                      Callback (case transport_send E flat structured of
                                  Inl err \<Rightarrow> Failure (TransportError err)
                                | Inr result \<Rightarrow> Success result)]
           \<and> callbacks pre = [] \<and> dispatched pre = []
           \<and> dispatched (run op E config statement) = [(flat, structured)]
           \<and> (\<forall>err. transport_send E flat structured = Inl err \<longrightarrow>
                 callbacks (run op E config statement) = [Failure (TransportError err)])
           \<and> (\<forall>result. transport_send E flat structured = Inr result \<longrightarrow>
                 callbacks (run op E config statement) = [Success result])"
    using r p d by blast
qed

lemma offline_transport: "transport_send offline_env flat structured = Inl (JStr ''offline'')"
  by (simp add: offline_env_def acme_env_def)

lemma acme_transport:
  "transport_send acme_env flat structured
     = Inr (JObj [(''flat'', flat), (''structured'', structured)])"
  by (simp add: acme_env_def)

theorem callback_exactly_once_witness:
  "callbacks (run Feedback offline_env acme_config feedback_given)
     = [Failure (TransportError (JStr ''offline''))]
   \<and> (\<exists>flat structured.
         dispatched (run Grade acme_env acme_config graded_45_of_50) = [(flat, structured)]
         \<and> callbacks (run Grade acme_env acme_config graded_45_of_50)
             = [Success (JObj [(''flat'', flat), (''structured'', structured)])])
   \<and> run Submit acme_env acme_config submitted_without_anything
       = [Callback (Failure (ValidationError ''id'' Missing))]"
proof -
  have off: "validate offline_env acme_config feedback_given (rules_of Feedback) = None"
    by (simp add: acme_offline_feedback_valid)
  have on: "validate acme_env acme_config graded_45_of_50 (rules_of Grade) = None"
    by (simp add: acme_graded_valid)
  have bad: "validate acme_env acme_config submitted_without_anything (rules_of Submit)
      = Some (ValidationError ''id'' Missing)"
    by (simp add: acme_submit_nothing)
  from callback_exactly_once [of Feedback offline_env acme_config feedback_given] off
    offline_transport
  have "callbacks (run Feedback offline_env acme_config feedback_given)
     = [Failure (TransportError (JStr ''offline''))]"
    by blast
  moreover
  from callback_exactly_once [of Grade acme_env acme_config graded_45_of_50] on
    acme_transport
  have "\<exists>flat structured.
         dispatched (run Grade acme_env acme_config graded_45_of_50) = [(flat, structured)]
         \<and> callbacks (run Grade acme_env acme_config graded_45_of_50)
             = [Success (JObj [(''flat'', flat), (''structured'', structured)])]"
    by blast
  moreover
  from callback_exactly_once [of Submit acme_env acme_config submitted_without_anything] bad
  have "run Submit acme_env acme_config submitted_without_anything
       = [Callback (Failure (ValidationError ''id'' Missing))]"
    by blast
  ultimately show ?thesis by blast
qed

end
